theory Spec2Isabelle
  imports Complex_Main "HOL-Library.Char_ord" "HOL-Library.Log_Nat"
begin

section \<open>The upload endpoint (src/pages/api/upload/image.ts)\<close>

text \<open>
  A JavaScript string is modelled as a \<^typ>\<open>string\<close>, one list element per code unit.
  Only the ASCII range is told apart by the program (the two regular expressions and the
  keys of the MIME table are ASCII), so the width of a code unit plays no role.
\<close>

subsection \<open>Values of the request body\<close>

text \<open>
  The fields \<open>file\<close> and \<open>fileName\<close> of the parsed JSON body are arbitrary JSON values.
  \<open>JObject\<close> stands for any object or array (always truthy, never a string).
\<close>

datatype jsvalue =
    JUndefined
  | JNull
  | JBool bool
  | JNumber real
  | JString string
  | JObject

text \<open>JavaScript truthiness, as tested by \<open>!file || !fileName\<close>.\<close>

fun truthy :: "jsvalue \<Rightarrow> bool" where
  "truthy JUndefined = False"
| "truthy JNull = False"
| "truthy (JBool b) = b"
| "truthy (JNumber r) = (r \<noteq> 0)"
| "truthy (JString s) = (s \<noteq> [])"
| "truthy JObject = True"

subsection \<open>Character classes of the two regular expressions\<close>

definition is_lower :: "char \<Rightarrow> bool" where
  "is_lower c = (CHR ''a'' \<le> c \<and> c \<le> CHR ''z'')"

definition is_upper :: "char \<Rightarrow> bool" where
  "is_upper c = (CHR ''A'' \<le> c \<and> c \<le> CHR ''Z'')"

definition is_digit :: "char \<Rightarrow> bool" where
  "is_digit c = (CHR ''0'' \<le> c \<and> c \<le> CHR ''9'')"

text \<open>The class \<open>\w\<close> of \<open>/^data:image\/\w+;base64,/\<close>.\<close>

definition is_word_char :: "char \<Rightarrow> bool" where
  "is_word_char c = (is_lower c \<or> is_upper c \<or> is_digit c \<or> c = CHR ''_'')"

text \<open>The class \<open>[a-zA-Z0-9.-]\<close>, whose complement \<open>/[^a-zA-Z0-9.-]/g\<close> replaces.\<close>

definition is_safe_char :: "char \<Rightarrow> bool" where
  "is_safe_char c = (is_lower c \<or> is_upper c \<or> is_digit c \<or> c = CHR ''.'' \<or> c = CHR ''-'')"

subsection \<open>Stripping the data-URI header\<close>

fun strip_prefix :: "string \<Rightarrow> string \<Rightarrow> string option" where
  "strip_prefix [] s = Some s"
| "strip_prefix (p # ps) [] = None"
| "strip_prefix (p # ps) (c # cs) = (if p = c then strip_prefix ps cs else None)"

text \<open>
  \<open>file.replace(/^data:image\/\w+;base64,/, '')\<close>: the pattern is anchored at the start;
  since \<open>;\<close> is not a word character, \<open>\w+\<close> can only match the whole run of word
  characters after \<open>data:image/\<close>. Without a match the string is unchanged.
\<close>

definition base64Data :: "string \<Rightarrow> string" where
  "base64Data file =
     (case strip_prefix ''data:image/'' file of
        None \<Rightarrow> file
      | Some rest \<Rightarrow>
          (if takeWhile is_word_char rest = [] then file
           else (case strip_prefix '';base64,'' (dropWhile is_word_char rest) of
                   None \<Rightarrow> file
                 | Some payload \<Rightarrow> payload)))"

subsection \<open>The storage key\<close>

text \<open>
  The template literal renders \<open>Date.now()\<close>, a count of milliseconds since the epoch,
  in decimal.
\<close>

definition digit_char :: "nat \<Rightarrow> char" where
  "digit_char n = ''0123456789'' ! (n mod 10)"

function decimal :: "nat \<Rightarrow> string" where
  "decimal n = (if n < 10 then [digit_char n] else decimal (n div 10) @ [digit_char n])"
  by pat_completeness auto
termination
  by (relation "measure (\<lambda>n. n)") auto

text \<open>\<open>fileName.replace(/[^a-zA-Z0-9.-]/g, '_')\<close>\<close>

definition sanitizedFileName :: "string \<Rightarrow> string" where
  "sanitizedFileName fileName = map (\<lambda>c. if is_safe_char c then c else CHR ''_'') fileName"

definition uniqueFileName :: "nat \<Rightarrow> string \<Rightarrow> string" where
  "uniqueFileName timestamp fileName = decimal timestamp @ ''-'' @ sanitizedFileName fileName"

definition filePath :: "nat \<Rightarrow> string \<Rightarrow> string" where
  "filePath timestamp fileName = ''messages/'' @ uniqueFileName timestamp fileName"

subsection \<open>The MIME type\<close>

text \<open>\<open>String.prototype.split('.')\<close>: never empty; \<open>''\<close> splits into \<open>['']\<close>.\<close>

fun split_dot :: "string \<Rightarrow> string list" where
  "split_dot [] = [[]]"
| "split_dot (c # cs) =
     (if c = CHR ''.'' then [] # split_dot cs
      else (case split_dot cs of
              [] \<Rightarrow> [[c]]
            | w # ws \<Rightarrow> (c # w) # ws))"

text \<open>\<open>Array.prototype.pop()\<close> is \<open>undefined\<close> on an empty array.\<close>

definition pop :: "'a list \<Rightarrow> 'a option" where
  "pop xs = (if xs = [] then None else Some (last xs))"

definition lower_char :: "char \<Rightarrow> char" where
  "lower_char c =
     (case map_of (zip ''ABCDEFGHIJKLMNOPQRSTUVWXYZ'' ''abcdefghijklmnopqrstuvwxyz'') c of
        None \<Rightarrow> c
      | Some l \<Rightarrow> l)"

definition toLowerCase :: "string \<Rightarrow> string" where
  "toLowerCase s = map lower_char s"

text \<open>\<open>fileName.split('.').pop()?.toLowerCase() || 'jpg'\<close>: the empty string is falsy.\<close>

definition fileExtension :: "string \<Rightarrow> string" where
  "fileExtension fileName =
     (case map_option toLowerCase (pop (split_dot fileName)) of
        None \<Rightarrow> ''jpg''
      | Some e \<Rightarrow> (if e = [] then ''jpg'' else e))"

text \<open>The own properties of the object literal \<open>mimeTypes\<close>.\<close>

definition mimeTypes :: "(string \<times> string) list" where
  "mimeTypes =
     [(''jpg'', ''image/jpeg''),
      (''jpeg'', ''image/jpeg''),
      (''png'', ''image/png''),
      (''gif'', ''image/gif''),
      (''webp'', ''image/webp''),
      (''svg'', ''image/svg+xml'')]"

text \<open>
  \<open>mimeTypes\<close> is a plain object, so \<open>mimeTypes[key]\<close> also finds what the object
  inherits from \<open>Object.prototype\<close>. These are the property names of \<open>Object.prototype\<close>;
  each holds a function or an object (truthy, not a string).
\<close>

definition object_prototype_keys :: "string list" where
  "object_prototype_keys =
     [''constructor'', ''__proto__'', ''hasOwnProperty'', ''isPrototypeOf'',
      ''propertyIsEnumerable'', ''toLocaleString'', ''toString'', ''valueOf'',
      ''__defineGetter__'', ''__defineSetter__'', ''__lookupGetter__'', ''__lookupSetter__'']"

datatype property_value =
    PString string
  | PInherited string

text \<open>Property access \<open>obj[key]\<close> on an object literal with the given own properties.\<close>

definition get_property :: "(string \<times> string) list \<Rightarrow> string \<Rightarrow> property_value option" where
  "get_property own key =
     (case map_of own key of
        Some v \<Rightarrow> Some (PString v)
      | None \<Rightarrow> (if key \<in> set object_prototype_keys then Some (PInherited key) else None))"

fun truthy_property :: "property_value \<Rightarrow> bool" where
  "truthy_property (PString s) = (s \<noteq> [])"
| "truthy_property (PInherited k) = True"

text \<open>\<open>mimeTypes[fileExtension] || 'image/jpeg'\<close>\<close>

definition contentType :: "string \<Rightarrow> property_value" where
  "contentType fileName =
     (case get_property mimeTypes (fileExtension fileName) of
        None \<Rightarrow> PString ''image/jpeg''
      | Some v \<Rightarrow> (if truthy_property v then v else PString ''image/jpeg''))"

subsection \<open>The storage service and the response\<close>

text \<open>
  A thrown value: an \<open>Error\<close> with its message, or anything else (for which the handler
  answers \<open>Erreur inconnue lors de l'upload\<close>).
\<close>

datatype js_exception =
    Error string
  | NonError

datatype 'a outcome =
    Throws js_exception
  | Returns 'a

text \<open>
  The arguments of \<open>storage.from('Images').upload(filePath, buffer, {contentType, upsert})\<close>.
  The buffer is represented by the base64 text it is decoded from.
\<close>

record upload_request =
  upload_path :: string
  upload_base64 :: string
  upload_contentType :: property_value
  upload_upsert :: bool

text \<open>
  The storage client, as the handler sees it: \<open>upload\<close> resolves to \<open>{data, error}\<close>
  (here the message of \<open>error\<close>, if any), \<open>getPublicUrl\<close> returns \<open>{data}\<close> (here
  \<open>data?.publicUrl\<close>, if any); either call may throw.
\<close>

record storage =
  upload :: "upload_request \<Rightarrow> string option outcome"
  getPublicUrl :: "string \<Rightarrow> string option outcome"

datatype storage_call =
    Upload upload_request
  | GetPublicUrl string

text \<open>
  The JSON bodies. The error texts of the source are, in order:
  \<open>Methode non autorisee\<close>, \<open>Fichier et nom de fichier requis\<close>,
  \<open>Erreur lors de l'upload: \<close> followed by the storage error's message,
  \<open>Erreur lors de la recuperation de l'URL\<close>, the message of a caught \<open>Error\<close>, and
  \<open>Erreur inconnue lors de l'upload\<close> (accents left out here).
\<close>

datatype error_text =
    MethodNotAllowed
  | FileAndNameRequired
  | UploadFailed string
  | UrlRetrievalFailed
  | CaughtError string
  | UnknownError

datatype json_body =
    ErrorJson error_text
  | UploadJson (url: string) (path: string)

record response =
  status :: nat
  headers :: "(string \<times> string) list"
  json :: json_body

record request =
  req_method :: string
  req_body :: "(jsvalue \<times> jsvalue) option"

text \<open>
  What one run of the handler did: the storage calls it made, in order, and the response
  it wrote itself (none when \<open>assertApiAdmin\<close> threw: that function, which is not part of
  the sources at hand, has answered the request by then).
\<close>

record handler_result =
  calls :: "storage_call list"
  responded :: "response option"

definition error_response :: "nat \<Rightarrow> error_text \<Rightarrow> response" where
  "error_response code e = \<lparr>status = code, headers = [], json = ErrorJson e\<rparr>"

text \<open>
  The body of the second \<open>try\<close> block: the storage calls made, and either the exception
  that left the block or the response written. \<open>req_body = None\<close> is a body that is
  \<open>null\<close> or \<open>undefined\<close>, which the destructuring rejects with a \<open>TypeError\<close>; calling
  \<open>replace\<close> on a truthy value that is not a string is a \<open>TypeError\<close> as well.
\<close>

definition try_block ::
  "storage \<Rightarrow> request \<Rightarrow> nat \<Rightarrow> storage_call list \<times> (js_exception + response)" where
  "try_block st req timestamp =
     (case req_body req of
        None \<Rightarrow> ([], Inl (Error ''Cannot destructure property file of req.body''))
      | Some (file, fileName) \<Rightarrow>
          (if \<not> truthy file \<or> \<not> truthy fileName
           then ([], Inr (error_response 400 FileAndNameRequired))
           else (case file of
                   JString f \<Rightarrow>
                     (case fileName of
                        JString name \<Rightarrow>
                          (let rq = \<lparr>upload_path = filePath timestamp name,
                                     upload_base64 = base64Data f,
                                     upload_contentType = contentType name,
                                     upload_upsert = False\<rparr>
                           in (case upload st rq of
                                 Throws e \<Rightarrow> ([Upload rq], Inl e)
                               | Returns (Some message) \<Rightarrow>
                                   ([Upload rq], Inr (error_response 500 (UploadFailed message)))
                               | Returns None \<Rightarrow>
                                   (case getPublicUrl st (filePath timestamp name) of
                                      Throws e \<Rightarrow>
                                        ([Upload rq, GetPublicUrl (filePath timestamp name)], Inl e)
                                    | Returns None \<Rightarrow>
                                        ([Upload rq, GetPublicUrl (filePath timestamp name)],
                                         Inr (error_response 500 UrlRetrievalFailed))
                                    | Returns (Some publicUrl) \<Rightarrow>
                                        ([Upload rq, GetPublicUrl (filePath timestamp name)],
                                         Inr (if publicUrl = []
                                              then error_response 500 UrlRetrievalFailed
                                              else \<lparr>status = 200, headers = [],
                                                    json = UploadJson publicUrl
                                                             (filePath timestamp name)\<rparr>)))))
                      | _ \<Rightarrow> ([], Inl (Error ''fileName.replace is not a function'')))
                 | _ \<Rightarrow> ([], Inl (Error ''file.replace is not a function'')))))"

text \<open>The \<open>catch\<close> clause of that block.\<close>

definition catch_block :: "js_exception \<Rightarrow> response" where
  "catch_block e =
     error_response 500
       (case e of Error message \<Rightarrow> CaughtError message | NonError \<Rightarrow> UnknownError)"

text \<open>
  The handler. \<open>admin\<close> tells whether \<open>assertApiAdmin\<close> returned (rather than threw);
  \<open>timestamp\<close> is the value of \<open>Date.now()\<close>.
\<close>

definition handler :: "storage \<Rightarrow> bool \<Rightarrow> request \<Rightarrow> nat \<Rightarrow> handler_result" where
  "handler st admin req timestamp =
     (if \<not> admin then \<lparr>calls = [], responded = None\<rparr>
      else if req_method req \<noteq> ''POST''
      then \<lparr>calls = [],
            responded = Some \<lparr>status = 405, headers = [(''Allow'', ''POST'')],
                              json = ErrorJson MethodNotAllowed\<rparr>\<rparr>
      else (case try_block st req timestamp of
              (cs, Inl e) \<Rightarrow> \<lparr>calls = cs, responded = Some (catch_block e)\<rparr>
            | (cs, Inr r) \<Rightarrow> \<lparr>calls = cs, responded = Some r\<rparr>))"

text \<open>The upload request the handler builds from the two strings of the body.\<close>

definition the_upload :: "nat \<Rightarrow> string \<Rightarrow> string \<Rightarrow> upload_request" where
  "the_upload t f name =
     \<lparr>upload_path = filePath t name, upload_base64 = base64Data f,
      upload_contentType = contentType name, upload_upsert = False\<rparr>"

section \<open>Calendar dates, as date-fns computes with them\<close>

text \<open>
  The dashboard page computes its windows with functions of the date-fns library, which
  read and write the local-time fields of a JavaScript \<open>Date\<close>. A \<open>Date\<close> is modelled by
  these fields, in a time zone without daylight-saving changes (every local day has
  86400000 milliseconds): the year, the month (1 to 12), the day of the month and the
  milliseconds since local midnight.
\<close>

record date =
  fullYear :: int
  month :: nat
  dayOfMonth :: nat
  msOfDay :: nat

definition msPerDay :: nat where
  "msPerDay = 86400000"

definition isLeapYear :: "int \<Rightarrow> bool" where
  "isLeapYear y = (y mod 4 = 0 \<and> (y mod 100 \<noteq> 0 \<or> y mod 400 = 0))"

definition daysInMonth :: "int \<Rightarrow> nat \<Rightarrow> nat" where
  "daysInMonth y m =
     (if m = 2 then (if isLeapYear y then 29 else 28)
      else if m = 4 \<or> m = 6 \<or> m = 9 \<or> m = 11 then 30
      else 31)"

text \<open>A \<open>Date\<close> object always holds a day of the calendar and a time of that day.\<close>

definition valid_date :: "date \<Rightarrow> bool" where
  "valid_date d =
     (1 \<le> month d \<and> month d \<le> 12 \<and>
      1 \<le> dayOfMonth d \<and> dayOfMonth d \<le> daysInMonth (fullYear d) (month d) \<and>
      msOfDay d < msPerDay)"

text \<open>
  The time value of a date (\<open>getTime()\<close>, milliseconds since 1970-01-01): the number of
  the day, by the \<open>DayFromYear\<close> formula of the language standard and the table of days
  before each month, and the milliseconds of the day.
\<close>

definition dayFromYear :: "int \<Rightarrow> int" where
  "dayFromYear y =
     365 * (y - 1970) + (y - 1969) div 4 - (y - 1901) div 100 + (y - 1601) div 400"

definition daysBeforeMonth :: "int \<Rightarrow> nat \<Rightarrow> nat" where
  "daysBeforeMonth y m =
     [0, 31, 59, 90, 120, 151, 181, 212, 243, 273, 304, 334] ! (m - 1) +
     (if 2 < m \<and> isLeapYear y then 1 else 0)"

definition dayNumber :: "date \<Rightarrow> int" where
  "dayNumber d =
     dayFromYear (fullYear d) + int (daysBeforeMonth (fullYear d) (month d)) +
     int (dayOfMonth d) - 1"

definition getTime :: "date \<Rightarrow> int" where
  "getTime d = dayNumber d * int msPerDay + int (msOfDay d)"

text \<open>\<open>setDate(getDate() + 1)\<close> and \<open>setDate(getDate() - 1)\<close>: the time of day is kept.\<close>

definition nextDay :: "date \<Rightarrow> date" where
  "nextDay d =
     (if dayOfMonth d < daysInMonth (fullYear d) (month d) then d\<lparr>dayOfMonth := dayOfMonth d + 1\<rparr>
      else if month d < 12 then d\<lparr>month := month d + 1, dayOfMonth := 1\<rparr>
      else d\<lparr>fullYear := fullYear d + 1, month := 1, dayOfMonth := 1\<rparr>)"

definition prevDay :: "date \<Rightarrow> date" where
  "prevDay d =
     (if 1 < dayOfMonth d then d\<lparr>dayOfMonth := dayOfMonth d - 1\<rparr>
      else if 1 < month d
      then d\<lparr>month := month d - 1, dayOfMonth := daysInMonth (fullYear d) (month d - 1)\<rparr>
      else d\<lparr>fullYear := fullYear d - 1, month := 12, dayOfMonth := 31\<rparr>)"

text \<open>\<open>startOfDay\<close>, \<open>endOfDay\<close>: \<open>setHours(0, 0, 0, 0)\<close> and \<open>setHours(23, 59, 59, 999)\<close>.\<close>

definition startOfDay :: "date \<Rightarrow> date" where
  "startOfDay d = d\<lparr>msOfDay := 0\<rparr>"

definition endOfDay :: "date \<Rightarrow> date" where
  "endOfDay d = d\<lparr>msOfDay := msPerDay - 1\<rparr>"

text \<open>\<open>startOfMonth\<close>: the first day at 00:00:00.000; \<open>endOfMonth\<close>: the last day at 23:59:59.999.\<close>

definition startOfMonth :: "date \<Rightarrow> date" where
  "startOfMonth d = d\<lparr>dayOfMonth := 1, msOfDay := 0\<rparr>"

definition endOfMonth :: "date \<Rightarrow> date" where
  "endOfMonth d = d\<lparr>dayOfMonth := daysInMonth (fullYear d) (month d), msOfDay := msPerDay - 1\<rparr>"

text \<open>\<open>subDays(date, n)\<close>: \<open>n\<close> days back, the time of day kept.\<close>

fun subDays :: "date \<Rightarrow> nat \<Rightarrow> date" where
  "subDays d 0 = d"
| "subDays d (Suc n) = subDays (prevDay d) n"

text \<open>
  \<open>subMonths(date, n)\<close>: the same day of the month \<open>n\<close> months back, or the last day of
  that month when it is shorter; the time of day is kept.
\<close>

definition subMonths :: "date \<Rightarrow> nat \<Rightarrow> date" where
  "subMonths d n =
     (let monthIndex = fullYear d * 12 + int (month d) - 1 - int n;
          y = monthIndex div 12;
          m = nat (monthIndex mod 12) + 1
      in d\<lparr>fullYear := y, month := m, dayOfMonth := min (dayOfMonth d) (daysInMonth y m)\<rparr>)"

text \<open>\<open>isSameDay(a, b)\<close>: \<open>+startOfDay(a) === +startOfDay(b)\<close>.\<close>

definition isSameDay :: "date \<Rightarrow> date \<Rightarrow> bool" where
  "isSameDay a b = (getTime (startOfDay a) = getTime (startOfDay b))"

text \<open>
  \<open>eachDayOfInterval({start, end})\<close>: from the start of the first day, one date per day
  while the date is not after \<open>end\<close>:
  \<^verbatim>\<open>while (+currentDate <= endTime) { dates.push(toDate(currentDate));
    currentDate.setDate(currentDate.getDate() + 1); currentDate.setHours(0, 0, 0, 0) }\<close>
  The test \<open>valid_date\<close> keeps the recursion total on records that are no calendar day
  (an invalid \<open>Date\<close> compares false with everything, and the loop does not start).
\<close>

function eachDay_loop :: "date \<Rightarrow> date \<Rightarrow> date list" where
  "eachDay_loop currentDate endDate =
     (if valid_date currentDate \<and> getTime currentDate \<le> getTime endDate
      then currentDate # eachDay_loop (startOfDay (nextDay currentDate)) endDate
      else [])"
  by pat_completeness auto

definition eachDayOfInterval :: "date \<Rightarrow> date \<Rightarrow> date list" where
  "eachDayOfInterval start end = eachDay_loop (startOfDay start) end"

text \<open>
  What the page takes from its libraries without computing with it here: the ISO text of
  a date, the chart label of a day (\<open>format(day, 'EEE dd', {locale: fr})\<close>), and the two
  parsers of timestamps (\<open>parseISO\<close> and \<open>new Date(string)\<close>; \<open>None\<close> is an invalid date).
\<close>

record lib =
  toISOString :: "date \<Rightarrow> string"
  format_EEE_dd :: "date \<Rightarrow> string"
  parseISO :: "string \<Rightarrow> date option"
  newDate :: "string \<Rightarrow> date option"

section \<open>The dashboard page (getServerSideProps and formatTrend)\<close>

subsection \<open>The period and its windows\<close>

text \<open>\<open>context.query.period\<close> is absent, one string, or several.\<close>

datatype query_param =
    Absent
  | Single string
  | Multiple "string list"

text \<open>\<open>typeof context.query.period === 'string' ? context.query.period : '7d'\<close>\<close>

definition period_of :: "query_param \<Rightarrow> string" where
  "period_of period_param = (case period_param of Single p \<Rightarrow> p | _ \<Rightarrow> ''7d'')"

record ranges =
  startDate :: date
  endDate :: date
  previousStartDate :: date
  previousEndDate :: date

text \<open>The \<open>switch (period)\<close>; \<open>'7d'\<close> shares the \<open>default\<close> branch.\<close>

definition dateRanges :: "date \<Rightarrow> string \<Rightarrow> ranges" where
  "dateRanges now period =
     (if period = ''30d''
      then \<lparr>startDate = subDays now 29,
            endDate = now,
            previousStartDate = subDays (subDays now 29) 30,
            previousEndDate = subDays now 30\<rparr>
      else if period = ''month''
      then \<lparr>startDate = startOfMonth now,
            endDate = now,
            previousStartDate = startOfMonth (subMonths now 1),
            previousEndDate = endOfMonth (subMonths now 1)\<rparr>
      else if period = ''last_month''
      then \<lparr>startDate = startOfMonth (subMonths now 1),
            endDate = endOfMonth (subMonths now 1),
            previousStartDate = startOfMonth (subMonths now 2),
            previousEndDate = endOfMonth (subMonths now 2)\<rparr>
      else \<lparr>startDate = subDays now 6,
            endDate = now,
            previousStartDate = subDays (subDays now 6) 7,
            previousEndDate = subDays now 7\<rparr>)"

definition startOfPeriod :: "date \<Rightarrow> string \<Rightarrow> date" where
  "startOfPeriod now period = startOfDay (startDate (dateRanges now period))"

definition endOfPeriod :: "date \<Rightarrow> string \<Rightarrow> date" where
  "endOfPeriod now period = endOfDay (endDate (dateRanges now period))"

definition startOfPreviousPeriod :: "date \<Rightarrow> string \<Rightarrow> date" where
  "startOfPreviousPeriod now period = startOfDay (previousStartDate (dateRanges now period))"

definition endOfPreviousPeriod :: "date \<Rightarrow> string \<Rightarrow> date" where
  "endOfPreviousPeriod now period = endOfDay (previousEndDate (dateRanges now period))"

subsection \<open>The backend\<close>

text \<open>
  A query as the page builds it: \<open>from(table).select(columns, options)\<close>, then the
  filters \<open>gte\<close>, \<open>lt\<close> and \<open>eq\<close>, then \<open>order(column, {ascending: false})\<close>.
  \<open>q_count_head\<close> stands for the options \<open>{count: 'exact', head: true}\<close>.
\<close>

datatype filter =
    Gte string string
  | Lt string string
  | Eq string bool

record query =
  q_from :: string
  q_select :: string
  q_count_head :: bool
  q_filters :: "filter list"
  q_order_desc :: "string option"

text \<open>
  The response of the backend client is a failure \<open>{error, data: null, count: null}\<close> or a
  success \<open>{error: null, data, count}\<close>, where \<open>data\<close> and \<open>count\<close> may be \<open>null\<close>.
\<close>

datatype ('e, 'r) query_response =
    Failure 'e
  | Success "nat option" "'r list option"

fun response_error :: "('e, 'r) query_response \<Rightarrow> 'e option" where
  "response_error (Failure e) = Some e"
| "response_error (Success c d) = None"

fun response_count :: "('e, 'r) query_response \<Rightarrow> nat option" where
  "response_count (Failure e) = None"
| "response_count (Success c d) = c"

fun response_data :: "('e, 'r) query_response \<Rightarrow> 'r list option" where
  "response_data (Failure e) = None"
| "response_data (Success c d) = d"

record created_row =
  created_at :: string

record message =
  title :: "string option"
  is_active :: bool
  start_date :: "string option"
  target_user_ids :: "string list option"
  updated_at :: "string option"
  message_created_at :: "string option"

text \<open>The backend answers every query; the rows of \<open>in_app_messages\<close> have their own type.\<close>

record 'e supabaseAdmin =
  run :: "query \<Rightarrow> ('e, created_row) query_response"
  run_messages :: "query \<Rightarrow> ('e, message) query_response"

definition count_query :: "string \<Rightarrow> filter list \<Rightarrow> query" where
  "count_query table filters =
     \<lparr>q_from = table, q_select = ''*'', q_count_head = True, q_filters = filters,
      q_order_desc = None\<rparr>"

definition rows_query :: "string \<Rightarrow> filter list \<Rightarrow> query" where
  "rows_query table filters =
     \<lparr>q_from = table, q_select = ''created_at'', q_count_head = False, q_filters = filters,
      q_order_desc = None\<rparr>"

definition messages_query :: query where
  "messages_query =
     \<lparr>q_from = ''in_app_messages'',
      q_select = ''id, title, is_active, start_date, target_user_ids, updated_at, created_at'',
      q_count_head = False, q_filters = [], q_order_desc = Some ''updated_at''\<rparr>"

text \<open>\<open>.gte('created_at', s.toISOString()).lt('created_at', e.toISOString())\<close>\<close>

definition window :: "lib \<Rightarrow> date \<Rightarrow> date \<Rightarrow> filter list" where
  "window l s e = [Gte ''created_at'' (toISOString l s), Lt ''created_at'' (toISOString l e)]"

subsection \<open>Counts\<close>

text \<open>What \<open>console.error\<close> is called with: a failed count with its label, or the failed
  query of the messages.\<close>

datatype 'e log_entry =
    CountError string 'e
  | MessagesError 'e

text \<open>\<open>getCountOrZero\<close>: the count used, and what was logged.\<close>

definition getCountOrZero :: "('e, 'r) query_response \<Rightarrow> string \<Rightarrow> int \<times> 'e log_entry list" where
  "getCountOrZero response label =
     (case response_error response of
        Some e \<Rightarrow> (0, [CountError label e])
      | None \<Rightarrow> ((case response_count response of None \<Rightarrow> 0 | Some n \<Rightarrow> int n), []))"

subsection \<open>Numbers\<close>

text \<open>
  A JavaScript number is an IEEE 754 double: every division and multiplication gives the
  exact result rounded to the nearest double, ties to the even significand. A double is
  modelled by the real number it stands for; \<open>fround\<close> rounds a real to 53 significant
  bits. The exponent is not bounded here, so \<open>fround\<close> is the rounding of doubles for
  results of absolute value from \<open>2^-1022\<close> up to \<open>2^1024\<close> (the normal doubles), which is
  where the quotients and percentages of counts below \<open>2^53\<close> lie. Such counts, their
  differences and the constant 100 are doubles themselves.
\<close>

definition pow2 :: "int \<Rightarrow> real" where
  "pow2 e = (if 0 \<le> e then 2 ^ nat e else 1 / 2 ^ nat (- e))"

text \<open>The exponent of a number other than 0: the \<open>e\<close> with \<open>2^e \<le> |x| < 2^(e+1)\<close>.\<close>

definition exponent :: "real \<Rightarrow> int" where
  "exponent x =
     (if 1 \<le> \<bar>x\<bar> then bitlen \<lfloor>\<bar>x\<bar>\<rfloor> - 1 else - bitlen (\<lceil>1 / \<bar>x\<bar>\<rceil> - 1))"

definition roundTiesToEven :: "real \<Rightarrow> int" where
  "roundTiesToEven y =
     (if y - of_int \<lfloor>y\<rfloor> < 1 / 2 then \<lfloor>y\<rfloor>
      else if 1 / 2 < y - of_int \<lfloor>y\<rfloor> then \<lfloor>y\<rfloor> + 1
      else if even \<lfloor>y\<rfloor> then \<lfloor>y\<rfloor> else \<lfloor>y\<rfloor> + 1)"

definition fround :: "real \<Rightarrow> real" where
  "fround x =
     (if x = 0 then 0
      else sgn x * of_int (roundTiesToEven (\<bar>x\<bar> / pow2 (exponent x - 52))) *
           pow2 (exponent x - 52))"

text \<open>
  The operators \<open>/\<close> and \<open>*\<close> of the language. The page divides only by a count that it
  has tested to be positive.
\<close>

definition fdiv :: "real \<Rightarrow> real \<Rightarrow> real" where
  "fdiv x y = fround (x / y)"

definition fmul :: "real \<Rightarrow> real \<Rightarrow> real" where
  "fmul x y = fround (x * y)"

subsection \<open>The metrics\<close>

text \<open>
  Counts are JavaScript numbers holding integers; percentages and rates are doubles.
\<close>

record MetricData =
  current :: int
  previous :: "int option"
  delta :: int
  deltaPercentage :: "real option"

record RateMetricData =
  optedIn :: int
  total :: int
  rate :: real

record consent_metrics =
  marketing :: RateMetricData
  improvement :: RateMetricData

record chart_point =
  point_name :: string
  point_value :: nat

record DashboardMetrics =
  generatedAt :: string
  totalUsers :: MetricData
  weeklySignups :: MetricData
  analyses :: MetricData
  waitlist :: MetricData
  consent :: consent_metrics
  userGrowthData :: "chart_point list"
  analysisActivityData :: "chart_point list"
  waitlistGrowthData :: "chart_point list"

text \<open>
  One chart series:
  \<^verbatim>\<open>eachDayOfInterval({ start: startDate, end: endDate }).map((day) => {
    const count = (response.data || []).filter((item) =>
      isSameDay(parseISO(item.created_at), day)).length;
    return { name: format(day, 'EEE dd', { locale: fr }), value: count }; })\<close>
\<close>

definition chartData ::
  "lib \<Rightarrow> ('e, created_row) query_response \<Rightarrow> date \<Rightarrow> date \<Rightarrow> chart_point list" where
  "chartData l response start end =
     map (\<lambda>day.
            \<lparr>point_name = format_EEE_dd l day,
             point_value =
               length (filter (\<lambda>item. case parseISO l (created_at item) of
                                          None \<Rightarrow> False
                                        | Some t \<Rightarrow> isSameDay t day)
                         (case response_data response of None \<Rightarrow> [] | Some rows \<Rightarrow> rows))\<rparr>)
         (eachDayOfInterval start end)"

text \<open>
  The first part of \<open>getServerSideProps\<close>: the thirteen queries, the ten counts, the deltas
  and rates, and the object \<open>dashboardMetrics\<close>; with it, what was logged. The labels of
  the counts are written without their accents.
\<close>

definition dashboardMetrics_of ::
  "lib \<Rightarrow> 'e supabaseAdmin \<Rightarrow> date \<Rightarrow> string \<Rightarrow> DashboardMetrics \<times> 'e log_entry list" where
  "dashboardMetrics_of l supabase now period =
     (let nowIso = toISOString l now;
          thisPeriod = window l (startOfPeriod now period) (endOfPeriod now period);
          previousPeriod =
            window l (startOfPreviousPeriod now period) (endOfPreviousPeriod now period);
          totalUsersResponse = run supabase (count_query ''profiles'' []);
          periodUsersResponse = run supabase (count_query ''profiles'' thisPeriod);
          previousPeriodUsersResponse = run supabase (count_query ''profiles'' previousPeriod);
          periodAnalysesResponse = run supabase (count_query ''analyses'' thisPeriod);
          previousPeriodAnalysesResponse = run supabase (count_query ''analyses'' previousPeriod);
          consentTotalResponse = run supabase (count_query ''consent'' []);
          consentMarketingResponse =
            run supabase (count_query ''consent'' [Eq ''marketing'' True]);
          consentImprovementResponse =
            run supabase (count_query ''consent'' [Eq ''improvement'' True]);
          waitlistPeriodResponse = run supabase (count_query ''waitlist'' thisPeriod);
          waitlistPreviousPeriodResponse = run supabase (count_query ''waitlist'' previousPeriod);
          chartProfilesResponse = run supabase (rows_query ''profiles'' thisPeriod);
          chartAnalysesResponse = run supabase (rows_query ''analyses'' thisPeriod);
          chartWaitlistResponse = run supabase (rows_query ''waitlist'' thisPeriod);
          (totalUsersCount, log1) = getCountOrZero totalUsersResponse ''profiles (total)'';
          (periodUsersCount, log2) = getCountOrZero periodUsersResponse ''profiles (periode)'';
          (previousPeriodUsersCount, log3) =
            getCountOrZero previousPeriodUsersResponse ''profiles (periode precedente)'';
          (periodAnalysesCount, log4) =
            getCountOrZero periodAnalysesResponse ''analyses (periode)'';
          (previousPeriodAnalysesCount, log5) =
            getCountOrZero previousPeriodAnalysesResponse ''analyses (periode precedente)'';
          (consentTotalCount, log6) = getCountOrZero consentTotalResponse ''consent (total)'';
          (marketingOptInCount, log7) =
            getCountOrZero consentMarketingResponse ''consent (marketing true)'';
          (improvementOptInCount, log8) =
            getCountOrZero consentImprovementResponse ''consent (improvement true)'';
          (waitlistPeriodCount, log9) =
            getCountOrZero waitlistPeriodResponse ''waitlist (periode)'';
          (waitlistPreviousPeriodCount, log10) =
            getCountOrZero waitlistPreviousPeriodResponse ''waitlist (periode precedente)'';
          previousTotalUsers = max (totalUsersCount - periodUsersCount) 0;
          totalUsersDelta = totalUsersCount - previousTotalUsers;
          totalUsersDeltaPercent =
            (if previousTotalUsers > 0
             then Some (fmul (fdiv (real_of_int totalUsersDelta) (real_of_int previousTotalUsers)) 100)
             else None);
          signupsDelta = periodUsersCount - previousPeriodUsersCount;
          signupsDeltaPercent =
            (if previousPeriodUsersCount > 0
             then Some (fmul (fdiv (real_of_int signupsDelta) (real_of_int previousPeriodUsersCount)) 100)
             else None);
          analysesDelta = periodAnalysesCount - previousPeriodAnalysesCount;
          analysesDeltaPercent =
            (if previousPeriodAnalysesCount > 0
             then Some (fmul (fdiv (real_of_int analysesDelta) (real_of_int previousPeriodAnalysesCount)) 100)
             else None);
          waitlistDelta = waitlistPeriodCount - waitlistPreviousPeriodCount;
          waitlistDeltaPercent =
            (if waitlistPreviousPeriodCount > 0
             then Some (fmul (fdiv (real_of_int waitlistDelta) (real_of_int waitlistPreviousPeriodCount)) 100)
             else None);
          marketingRate =
            (if consentTotalCount > 0
             then fmul (fdiv (real_of_int marketingOptInCount) (real_of_int consentTotalCount)) 100
             else 0);
          improvementRate =
            (if consentTotalCount > 0
             then fmul (fdiv (real_of_int improvementOptInCount) (real_of_int consentTotalCount)) 100
             else 0)
      in (\<lparr>generatedAt = nowIso,
           totalUsers =
             \<lparr>current = totalUsersCount, previous = Some previousTotalUsers,
              delta = totalUsersDelta, deltaPercentage = totalUsersDeltaPercent\<rparr>,
           weeklySignups =
             \<lparr>current = periodUsersCount, previous = Some previousPeriodUsersCount,
              delta = signupsDelta, deltaPercentage = signupsDeltaPercent\<rparr>,
           analyses =
             \<lparr>current = periodAnalysesCount, previous = Some previousPeriodAnalysesCount,
              delta = analysesDelta, deltaPercentage = analysesDeltaPercent\<rparr>,
           waitlist =
             \<lparr>current = waitlistPeriodCount, previous = Some waitlistPreviousPeriodCount,
              delta = waitlistDelta, deltaPercentage = waitlistDeltaPercent\<rparr>,
           consent =
             \<lparr>marketing =
                \<lparr>optedIn = marketingOptInCount, total = consentTotalCount,
                 rate = marketingRate\<rparr>,
              improvement =
                \<lparr>optedIn = improvementOptInCount, total = consentTotalCount,
                 rate = improvementRate\<rparr>\<rparr>,
           userGrowthData =
             chartData l chartProfilesResponse
               (startDate (dateRanges now period)) (endDate (dateRanges now period)),
           analysisActivityData =
             chartData l chartAnalysesResponse
               (startDate (dateRanges now period)) (endDate (dateRanges now period)),
           waitlistGrowthData =
             chartData l chartWaitlistResponse
               (startDate (dateRanges now period)) (endDate (dateRanges now period))\<rparr>,
          log1 @ log2 @ log3 @ log4 @ log5 @ log6 @ log7 @ log8 @ log9 @ log10))"

subsection \<open>The statistics of the messages and the props of the page\<close>

record MessageStats =
  ms_total :: nat
  ms_active :: nat
  ms_targeted :: nat
  ms_upcoming :: nat
  ms_lastMessageTitle :: "string option"
  ms_lastMessageUpdatedAt :: "string option"
  ms_generatedAt :: string

definition baseStats :: "string \<Rightarrow> MessageStats" where
  "baseStats nowIso =
     \<lparr>ms_total = 0, ms_active = 0, ms_targeted = 0, ms_upcoming = 0,
      ms_lastMessageTitle = None, ms_lastMessageUpdatedAt = None, ms_generatedAt = nowIso\<rparr>"

text \<open>
  The object \<open>stats\<close>. A message is targeted when \<open>target_user_ids\<close> is a non-empty array,
  upcoming when \<open>start_date\<close> is truthy and \<open>new Date(start_date) > nowForMessages\<close>
  (false for an invalid date).
\<close>

definition stats :: "lib \<Rightarrow> message list \<Rightarrow> date \<Rightarrow> string \<Rightarrow> MessageStats" where
  "stats l messages nowForMessages nowIso =
     \<lparr>ms_total = length messages,
      ms_active = length (filter is_active messages),
      ms_targeted =
        length (filter (\<lambda>message. case target_user_ids message of
                                        None \<Rightarrow> False
                                      | Some ids \<Rightarrow> length ids > 0) messages),
      ms_upcoming =
        length (filter (\<lambda>message. case start_date message of
                                        None \<Rightarrow> False
                                      | Some s \<Rightarrow>
                                          (if s = [] then False
                                           else (case newDate l s of
                                                   None \<Rightarrow> False
                                                 | Some d \<Rightarrow> getTime d > getTime nowForMessages)))
                  messages),
      ms_lastMessageTitle = (case messages of [] \<Rightarrow> None | m # ms \<Rightarrow> title m),
      ms_lastMessageUpdatedAt =
        (case messages of
           [] \<Rightarrow> None
         | m # ms \<Rightarrow> (case updated_at m of Some u \<Rightarrow> Some u | None \<Rightarrow> message_created_at m)),
      ms_generatedAt = nowIso\<rparr>"

text \<open>
  \<open>requireAdminSession\<close> (not part of the sources at hand) gives a result without
  \<open>session\<close>, which the page returns as it is, or the session of an administrator.
\<close>

datatype ('r, 's) admin_result =
    Denied 'r
  | Admin 's

text \<open>The props; \<open>selectedPeriod = None\<close> is an object without that field.\<close>

record 's props =
  initialSession :: 's
  messageStats :: MessageStats
  dashboardMetrics :: DashboardMetrics
  selectedPeriod :: "string option"

datatype ('r, 's) page_result =
    Returned 'r
  | Props "'s props"

text \<open>
  \<open>getServerSideProps\<close>: the result and what was logged. \<open>now\<close> and \<open>nowForMessages\<close> are
  the two readings of the clock (\<open>new Date()\<close>).
\<close>

definition getServerSideProps ::
  "lib \<Rightarrow> ('r, 's) admin_result \<Rightarrow> 'e supabaseAdmin \<Rightarrow> date \<Rightarrow> date \<Rightarrow> query_param \<Rightarrow>
   ('r, 's) page_result \<times> 'e log_entry list" where
  "getServerSideProps l adminSession supabase now nowForMessages period_param =
     (case adminSession of
        Denied r \<Rightarrow> (Returned r, [])
      | Admin session \<Rightarrow>
          (let nowIso = toISOString l now;
               period = period_of period_param;
               (metrics, log) = dashboardMetrics_of l supabase now period;
               messagesResponse = run_messages supabase messages_query
           in (case response_error messagesResponse of
                 Some error \<Rightarrow>
                   (Props \<lparr>initialSession = session, messageStats = baseStats nowIso,
                           dashboardMetrics = metrics, selectedPeriod = None\<rparr>,
                    log @ [MessagesError error])
               | None \<Rightarrow>
                   (Props \<lparr>initialSession = session,
                           messageStats =
                             stats l (case response_data messagesResponse of
                                        None \<Rightarrow> []
                                      | Some ms \<Rightarrow> ms)
                               nowForMessages nowIso,
                           dashboardMetrics = metrics, selectedPeriod = Some period\<rparr>,
                    log))))"

subsection \<open>The trend of a metric\<close>

datatype variant = Neutral | Positive | Negative

text \<open>
  The text of a trend, before the number formatters: a dash and the label; a sign, the
  absolute percentage and the label; or a sign, the absolute delta and the label.
\<close>

datatype trend_text =
    NoComparison string
  | PercentTrend string real string
  | DeltaTrend string int string

record trend =
  trend_text :: trend_text
  trend_variant :: variant

text \<open>\<open>formatTrend\<close>; a real number is always finite, so \<open>Number.isFinite\<close> holds of it.\<close>

definition formatTrend :: "MetricData \<Rightarrow> string \<Rightarrow> trend" where
  "formatTrend metric comparisonLabel =
     (case previous metric of
        None \<Rightarrow> \<lparr>trend_text = NoComparison comparisonLabel, trend_variant = Neutral\<rparr>
      | Some p \<Rightarrow>
          (let variant = (if delta metric = 0 then Neutral
                          else if delta metric > 0 then Positive else Negative);
               prefix = (if delta metric > 0 then ''+'' else if delta metric < 0 then ''-'' else '''')
           in (case deltaPercentage metric of
                 Some percentage \<Rightarrow>
                   \<lparr>trend_text = PercentTrend prefix \<bar>percentage\<bar> comparisonLabel,
                    trend_variant = variant\<rparr>
               | None \<Rightarrow>
                   \<lparr>trend_text = DeltaTrend prefix \<bar>delta metric\<bar> comparisonLabel,
                    trend_variant = variant\<rparr>)))"

section \<open>Notions used to state the properties\<close>

text \<open>The text after the last dot of a file name (the whole name when it has no dot).\<close>

definition after_last_dot :: "string \<Rightarrow> string" where
  "after_last_dot s = rev (takeWhile (\<lambda>c. c \<noteq> CHR ''.'') (rev s))"

text \<open>
  The content type as the specification words it: the lowercased final extension looked
  up in the table, and \<open>image/jpeg\<close> for an extension that is not in the table and for
  a file name with no dot.
\<close>

definition spec_contentType :: "string \<Rightarrow> string" where
  "spec_contentType fileName =
     (if CHR ''.'' \<notin> set fileName then ''image/jpeg''
      else (case map_of mimeTypes (toLowerCase (after_last_dot fileName)) of
              None \<Rightarrow> ''image/jpeg''
            | Some m \<Rightarrow> m))"

text \<open>The count that \<open>getCountOrZero\<close> gives for a counting query.\<close>

definition counted :: "'e supabaseAdmin \<Rightarrow> string \<Rightarrow> filter list \<Rightarrow> string \<Rightarrow> int" where
  "counted supabase table filters label =
     fst (getCountOrZero (run supabase (count_query table filters)) label)"

text \<open>A response in which a failure or a missing count has become the count 0.\<close>

definition degrade :: "('e, 'r) query_response \<Rightarrow> ('e, 'r) query_response" where
  "degrade response =
     (case response of
        Failure e \<Rightarrow> Success (Some 0) None
      | Success None d \<Rightarrow> Success (Some 0) d
      | Success (Some n) d \<Rightarrow> Success (Some n) d)"

text \<open>The months counted from year 0, and the number of calendar days of a window, from
  the day of its start to the day of its end.\<close>

definition monthIndex :: "date \<Rightarrow> int" where
  "monthIndex d = fullYear d * 12 + int (month d) - 1"

definition valid_month :: "date \<Rightarrow> bool" where
  "valid_month d = (1 \<le> month d \<and> month d \<le> 12)"

definition window_days :: "date \<Rightarrow> date \<Rightarrow> int" where
  "window_days s e = dayNumber e - dayNumber s + 1"

text \<open>The calendar month before the month of a date: its year and its month.\<close>

definition month_before :: "int \<times> nat \<Rightarrow> int \<times> nat" where
  "month_before ym = (if snd ym = 1 then (fst ym - 1, 12) else (fst ym, snd ym - 1))"

text \<open>A whole calendar month as a window: its first day at 00:00:00.000 and its last day
  at 23:59:59.999.\<close>

definition first_of_month :: "int \<times> nat \<Rightarrow> date" where
  "first_of_month ym = \<lparr>fullYear = fst ym, month = snd ym, dayOfMonth = 1, msOfDay = 0\<rparr>"

definition last_of_month :: "int \<times> nat \<Rightarrow> date" where
  "last_of_month ym =
     \<lparr>fullYear = fst ym, month = snd ym, dayOfMonth = daysInMonth (fst ym) (snd ym),
      msOfDay = 86399999\<rparr>"

text \<open>The count a response holds: 0 for a failure and for a count that is null.\<close>

definition count_of :: "('e, 'r) query_response \<Rightarrow> int" where
  "count_of response =
     (case response of
        Failure e \<Rightarrow> 0
      | Success None d \<Rightarrow> 0
      | Success (Some n) d \<Rightarrow> int n)"

text \<open>The ten counting queries of the page with their labels, in the order of the calls
  of \<open>getCountOrZero\<close>, and the errors of their responses.\<close>

definition count_queries :: "lib \<Rightarrow> date \<Rightarrow> string \<Rightarrow> (string \<times> query) list" where
  "count_queries l now period =
     (let thisPeriod = window l (startOfPeriod now period) (endOfPeriod now period);
          previousPeriod =
            window l (startOfPreviousPeriod now period) (endOfPreviousPeriod now period)
      in [(''profiles (total)'', count_query ''profiles'' []),
          (''profiles (periode)'', count_query ''profiles'' thisPeriod),
          (''profiles (periode precedente)'', count_query ''profiles'' previousPeriod),
          (''analyses (periode)'', count_query ''analyses'' thisPeriod),
          (''analyses (periode precedente)'', count_query ''analyses'' previousPeriod),
          (''consent (total)'', count_query ''consent'' []),
          (''consent (marketing true)'', count_query ''consent'' [Eq ''marketing'' True]),
          (''consent (improvement true)'', count_query ''consent'' [Eq ''improvement'' True]),
          (''waitlist (periode)'', count_query ''waitlist'' thisPeriod),
          (''waitlist (periode precedente)'', count_query ''waitlist'' previousPeriod)])"

definition count_errors :: "'e supabaseAdmin \<Rightarrow> (string \<times> query) list \<Rightarrow> 'e log_entry list" where
  "count_errors supabase queries =
     concat (map (\<lambda>(label, q). case run supabase q of
                                   Failure e \<Rightarrow> [CountError label e]
                                 | Success c d \<Rightarrow> []) queries)"

text \<open>
  The counts of the page, as the responses of its queries hold them: of a whole table, of
  the consent records with a flag set, and of the rows of a table in the current and in
  the comparison window.
\<close>

definition total_count :: "'e supabaseAdmin \<Rightarrow> string \<Rightarrow> int" where
  "total_count supabase table = count_of (run supabase (count_query table []))"

definition flag_count :: "'e supabaseAdmin \<Rightarrow> string \<Rightarrow> int" where
  "flag_count supabase flag = count_of (run supabase (count_query ''consent'' [Eq flag True]))"

definition period_count :: "lib \<Rightarrow> 'e supabaseAdmin \<Rightarrow> date \<Rightarrow> string \<Rightarrow> string \<Rightarrow> int" where
  "period_count l supabase now period table =
     count_of (run supabase
       (count_query table (window l (startOfPeriod now period) (endOfPeriod now period))))"

definition previous_count :: "lib \<Rightarrow> 'e supabaseAdmin \<Rightarrow> date \<Rightarrow> string \<Rightarrow> string \<Rightarrow> int" where
  "previous_count l supabase now period table =
     count_of (run supabase
       (count_query table
          (window l (startOfPreviousPeriod now period) (endOfPreviousPeriod now period))))"

text \<open>
  A metric as the page derives it from a current and a previous count: the delta, and the
  percentage \<open>(delta / previous) * 100\<close> in doubles, null for a previous count of 0.
\<close>

definition metric_of :: "int \<Rightarrow> int \<Rightarrow> MetricData" where
  "metric_of c p =
     \<lparr>current = c, previous = Some p, delta = c - p,
      deltaPercentage =
        (if p = 0 then None
         else Some (fmul (fdiv (real_of_int (c - p)) (real_of_int p)) 100))\<rparr>"

text \<open>
  Every count that the queries of a list bring is below \<open>2^53\<close>: the counts and their
  differences are doubles, and the integer arithmetic on them is that of the code.
\<close>

definition safe_counts :: "'e supabaseAdmin \<Rightarrow> (string \<times> query) list \<Rightarrow> bool" where
  "safe_counts supabase queries =
     list_all (\<lambda>(label, q). count_of (run supabase q) < 2 ^ 53) queries"

text \<open>For each day from \<open>firstDay\<close> to \<open>lastDay\<close>, the number of rows created on that day.\<close>

definition daily_counts :: "lib \<Rightarrow> created_row list \<Rightarrow> int \<Rightarrow> int \<Rightarrow> nat list" where
  "daily_counts l rows firstDay lastDay =
     map (\<lambda>n. length (filter (\<lambda>item. case parseISO l (created_at item) of
                                         None \<Rightarrow> False
                                       | Some t \<Rightarrow> dayNumber t = n) rows))
         [firstDay..lastDay]"

text \<open>A storage service that accepts every upload, and a request to try the handler on.\<close>

definition sample_storage :: storage where
  "sample_storage =
     \<lparr>upload = (\<lambda>rq. Returns None),
      getPublicUrl = (\<lambda>p. Returns (Some (''https://cdn.example/'' @ p)))\<rparr>"

definition sample_request :: request where
  "sample_request =
     \<lparr>req_method = ''POST'',
      req_body = Some (JString ''data:image/png;base64,iVBORw0KGgo='', JString ''Photo de profil.PNG'')\<rparr>"


text \<open>The rows a response brings (\<open>response.data || []\<close>).\<close>

definition fetched :: "('e, 'r) query_response \<Rightarrow> 'r list" where
  "fetched response = (case response_data response of None \<Rightarrow> [] | Some rows \<Rightarrow> rows)"

text \<open>
  A moment (3 November 2026, noon), a library that reads one timestamp, and a backend with
  40 profiles, 10 of them in every window, 8 consent records, one row for the chart of the
  profiles, and failures for every other query, to try the page on.
\<close>

definition now0 :: date where
  "now0 = \<lparr>fullYear = 2026, month = 11, dayOfMonth = 3, msOfDay = 43200000\<rparr>"

definition sample_lib :: lib where
  "sample_lib =
     \<lparr>toISOString = (\<lambda>d. ''''),
      format_EEE_dd = (\<lambda>d. ''''),
      parseISO = (\<lambda>s. if s = ''2026-11-02T10:00:00Z''
                      then Some \<lparr>fullYear = 2026, month = 11, dayOfMonth = 2, msOfDay = 36000000\<rparr>
                      else None),
      newDate = (\<lambda>s. None)\<rparr>"

definition sample_supabase :: "string supabaseAdmin" where
  "sample_supabase =
     \<lparr>run = (\<lambda>q. if q_count_head q
                 then (if q_from q = ''consent''
                       then Success (Some (if q_filters q = [] then 8
                                           else if q_filters q = [Eq ''marketing'' True] then 6
                                           else 2)) None
                       else if q_from q = ''profiles''
                       then Success (Some (if q_filters q = [] then 40 else 10)) None
                       else Failure ''timeout'')
                 else (if q_from q = ''profiles''
                       then Success None (Some [\<lparr>created_at = ''2026-11-02T10:00:00Z''\<rparr>])
                       else Failure ''timeout'')),
      run_messages = (\<lambda>q. Failure ''timeout'')\<rparr>"

text \<open>
  A library whose ISO text of a date is the number of its day, and a backend that tells
  the windows apart: 40 profiles, 16 of them in the seven days up to 3 November 2026 and
  5 in the seven days before; 20 consent records, 11 with the marketing flag and 7 with
  the improvement flag; a failure for every other query.
\<close>

definition day_lib :: lib where
  "day_lib =
     \<lparr>toISOString = (\<lambda>d. decimal (nat (dayNumber d))),
      format_EEE_dd = (\<lambda>d. decimal (dayOfMonth d)),
      parseISO = (\<lambda>s. None),
      newDate = (\<lambda>s. None)\<rparr>"

definition windowed_supabase :: "string supabaseAdmin" where
  "windowed_supabase =
     \<lparr>run = (\<lambda>q. if q_count_head q
                 then (if q_from q = ''profiles''
                       then Success
                              (Some (if q_filters q = [] then 40
                                     else if q_filters q =
                                             [Gte ''created_at'' ''20754'', Lt ''created_at'' ''20760'']
                                     then 16 else 5)) None
                       else if q_from q = ''consent''
                       then Success (Some (if q_filters q = [] then 20
                                           else if q_filters q = [Eq ''marketing'' True] then 11
                                           else 7)) None
                       else Failure ''timeout'')
                 else Failure ''timeout''),
      run_messages = (\<lambda>q. Failure ''timeout'')\<rparr>"

section \<open>Properties of the upload endpoint\<close>

declare decimal.simps [simp del]

lemma digit_char_is_digit: "is_digit (digit_char n)"
proof -
  have "n mod 10 < 10" by simp
  then have "n mod 10 \<in> {0, 1, 2, 3, 4, 5, 6, 7, 8, 9}"
    by (simp only: insert_iff empty_iff) arith
  then show ?thesis
    by (auto simp: digit_char_def is_digit_def)
qed

lemma decimal_digits: "c \<in> set (decimal n) \<Longrightarrow> is_digit c"
proof (induction n arbitrary: c rule: decimal.induct)
  case (1 n)
  show ?case
  proof (cases "n < 10")
    case True
    with "1.prems" digit_char_is_digit show ?thesis by (subst (asm) decimal.simps) simp
  next
    case False
    with "1.prems" have "c \<in> set (decimal (n div 10)) \<or> c = digit_char n"
      by (subst (asm) decimal.simps) auto
    with "1.IH" False digit_char_is_digit show ?thesis by auto
  qed
qed

lemma sanitized_chars: "c \<in> set (sanitizedFileName f) \<Longrightarrow> is_safe_char c \<or> c = CHR ''_''"
  by (auto simp: sanitizedFileName_def)

lemma safe_not_slash: "is_safe_char c \<or> c = CHR ''_'' \<Longrightarrow> c \<noteq> CHR ''/''"
  by (auto simp: is_safe_char_def is_lower_def is_upper_def is_digit_def)

lemma uniqueFileName_chars:
  "c \<in> set (uniqueFileName t f) \<Longrightarrow> is_safe_char c \<or> c = CHR ''_''"
  by (auto simp: uniqueFileName_def is_safe_char_def dest: decimal_digits sanitized_chars)

lemma split_dot_nonempty: "split_dot s \<noteq> []"
  by (induction s) (auto split: list.splits)

lemma split_dot_no_dot: "CHR ''.'' \<notin> set s \<Longrightarrow> split_dot s = [s]"
  by (induction s) auto

lemma split_dot_dot: "CHR ''.'' \<in> set s \<Longrightarrow> length (split_dot s) > 1"
  using split_dot_nonempty
  by (induction s) (auto split: list.splits)

lemma after_last_dot_Cons:
  "after_last_dot (c # cs) = (if CHR ''.'' \<in> set cs then after_last_dot cs
      else if c = CHR ''.'' then cs else c # cs)"
  by (auto simp: after_last_dot_def takeWhile_append takeWhile_eq_all_conv[THEN iffD2])

lemma last_split_dot: "last (split_dot s) = after_last_dot s"
proof (induction s)
  case Nil
  then show ?case by (simp add: after_last_dot_def)
next
  case (Cons c cs)
  show ?case
  proof (cases "CHR ''.'' \<in> set cs")
    case True
    from split_dot_dot[OF True] obtain w v ws where "split_dot cs = w # v # ws"
      by (cases "split_dot cs"; cases "tl (split_dot cs)") auto
    with Cons True show ?thesis
      by (simp add: after_last_dot_Cons)
  next
    case False
    then show ?thesis
      by (simp add: after_last_dot_Cons split_dot_no_dot)
  qed
qed

lemma try_block_upload_call:
  assumes "Upload rq \<in> set (fst (try_block st req t))"
  shows "\<exists>f name. req_body req = Some (JString f, JString name) \<and>
           rq = \<lparr>upload_path = filePath t name, upload_base64 = base64Data f,
                 upload_contentType = contentType name, upload_upsert = False\<rparr>"
proof (cases "req_body req")
  case None
  with assms show ?thesis by (simp add: try_block_def)
next
  case (Some b)
  obtain fl fileName where b: "b = (fl, fileName)" by (cases b)
  show ?thesis
  proof (cases fl)
    case (JString f)
    show ?thesis
    proof (cases fileName)
      case (JString name)
      with assms Some b \<open>fl = JString f\<close> show ?thesis
        by (auto simp: try_block_def Let_def split: if_splits outcome.splits option.splits)
    qed (use assms Some b \<open>fl = JString f\<close> in \<open>simp_all add: try_block_def split: if_splits\<close>)
  qed (use assms Some b in \<open>simp_all add: try_block_def split: if_splits\<close>)
qed

lemma handler_upload_call:
  assumes "Upload rq \<in> set (calls (handler st admin req t))"
  shows "\<exists>f name. req_body req = Some (JString f, JString name) \<and>
           rq = \<lparr>upload_path = filePath t name, upload_base64 = base64Data f,
                 upload_contentType = contentType name, upload_upsert = False\<rparr>"
proof -
  from assms have "Upload rq \<in> set (fst (try_block st req t))"
    by (auto simp: handler_def split: if_splits prod.splits sum.splits)
  then show ?thesis by (rule try_block_upload_call)
qed

lemma try_block_cases:
  "(\<exists>fl fileName. req_body req = Some (fl, fileName) \<and> \<not> (truthy fl \<and> truthy fileName) \<and>
       try_block st req t = ([], Inr (error_response 400 FileAndNameRequired)))
   \<or> (\<exists>f name u. req_body req = Some (JString f, JString name) \<and> f \<noteq> [] \<and> name \<noteq> [] \<and>
         upload st (the_upload t f name) = Returns None \<and>
         getPublicUrl st (filePath t name) = Returns (Some u) \<and> u \<noteq> [] \<and>
         try_block st req t =
           ([Upload (the_upload t f name), GetPublicUrl (filePath t name)],
            Inr \<lparr>status = 200, headers = [], json = UploadJson u (filePath t name)\<rparr>))
   \<or> (\<exists>f name m. req_body req = Some (JString f, JString name) \<and> f \<noteq> [] \<and> name \<noteq> [] \<and>
         upload st (the_upload t f name) = Returns (Some m) \<and>
         try_block st req t =
           ([Upload (the_upload t f name)], Inr (error_response 500 (UploadFailed m))))
   \<or> (\<exists>f name. req_body req = Some (JString f, JString name) \<and> f \<noteq> [] \<and> name \<noteq> [] \<and>
         upload st (the_upload t f name) = Returns None \<and>
         getPublicUrl st (filePath t name) \<in> {Returns None, Returns (Some [])} \<and>
         try_block st req t =
           ([Upload (the_upload t f name), GetPublicUrl (filePath t name)],
            Inr (error_response 500 UrlRetrievalFailed)))
   \<or> (\<exists>cs e. (\<forall>fl fileName. req_body req = Some (fl, fileName) \<longrightarrow> truthy fl \<and> truthy fileName) \<and>
         try_block st req t = (cs, Inl e))"
proof (cases "req_body req")
  case None
  then show ?thesis by (simp add: try_block_def)
next
  case (Some b)
  obtain fl fileName where b: "b = (fl, fileName)" by (cases b)
  show ?thesis
  proof (cases "truthy fl \<and> truthy fileName")
    case False
    with Some b show ?thesis by (auto simp: try_block_def)
  next
    case True
    note tr = this
    show ?thesis
    proof (cases fl)
      case (JString f)
      show ?thesis
      proof (cases fileName)
        case (JString name)
        with Some b tr \<open>fl = JString f\<close> show ?thesis
          by (cases "upload st (the_upload t f name)"; cases "getPublicUrl st (filePath t name)")
             (auto simp: try_block_def the_upload_def Let_def split: option.splits)
      qed (use Some b tr \<open>fl = JString f\<close> in \<open>simp_all add: try_block_def\<close>)
    qed (use Some b tr in \<open>simp_all add: try_block_def\<close>)
  qed
qed

lemma handler_admin_post:
  "req_method req = ''POST'' \<Longrightarrow>
   handler st True req t =
     \<lparr>calls = fst (try_block st req t),
      responded = Some (case snd (try_block st req t) of Inl e \<Rightarrow> catch_block e | Inr r \<Rightarrow> r)\<rparr>"
  by (simp add: handler_def split: prod.splits sum.splits)

text \<open>
  Claim C2. When \<open>assertApiAdmin\<close> throws, the handler writes no response and calls the
  storage service not at all. Otherwise it writes exactly one response, whose status is
  200, 400, 405 or 500: 405 exactly for a method other than POST; 400 exactly for a POST
  whose \<open>file\<close> or \<open>fileName\<close> is missing (falsy); 200, with the body \<open>{url, path}\<close>,
  exactly for a POST of two non-empty strings whose upload returns no error and whose
  public URL is there; every other response is an error body, and what remains (a storage
  error, a missing URL, an exception) has status 500.
\<close>
theorem handler_response:
  "(\<not> admin \<longrightarrow> responded (handler st admin req t) = None \<and> calls (handler st admin req t) = []) \<and>
   (admin \<longrightarrow>
      (\<exists>resp. responded (handler st admin req t) = Some resp \<and>
         status resp \<in> {200, 400, 405, 500} \<and>
         (status resp = 200 \<longleftrightarrow> (\<exists>u p. json resp = UploadJson u p)) \<and>
         (status resp \<noteq> 200 \<longleftrightarrow> (\<exists>e. json resp = ErrorJson e)) \<and>
         (status resp = 405 \<longleftrightarrow> req_method req \<noteq> ''POST'') \<and>
         (status resp = 400 \<longleftrightarrow>
            req_method req = ''POST'' \<and>
            (\<exists>fl fileName. req_body req = Some (fl, fileName) \<and> \<not> (truthy fl \<and> truthy fileName))) \<and>
         (status resp = 200 \<longleftrightarrow>
            req_method req = ''POST'' \<and>
            (\<exists>f name u. req_body req = Some (JString f, JString name) \<and> f \<noteq> [] \<and> name \<noteq> [] \<and>
               upload st (the_upload t f name) = Returns None \<and>
               getPublicUrl st (filePath t name) = Returns (Some u) \<and> u \<noteq> [] \<and>
               json resp = UploadJson u (filePath t name)))))"
proof (cases admin)
  case False
  then show ?thesis by (simp add: handler_def)
next
  case True
  show ?thesis
  proof (cases "req_method req = ''POST''")
    case False
    with True show ?thesis by (simp add: handler_def)
  next
    case post: True
    note h = handler_admin_post[OF post, of st t]
    from try_block_cases[of req st t] show ?thesis
    proof (elim disjE exE conjE)
      fix fl fileName
      assume "req_body req = Some (fl, fileName)" "\<not> (truthy fl \<and> truthy fileName)"
        "try_block st req t = ([], Inr (error_response 400 FileAndNameRequired))"
      with True post h show ?thesis
        by (auto simp: error_response_def)
    next
      fix f name u
      assume "req_body req = Some (JString f, JString name)" "f \<noteq> []" "name \<noteq> []"
        "upload st (the_upload t f name) = Returns None"
        "getPublicUrl st (filePath t name) = Returns (Some u)" "u \<noteq> []"
        "try_block st req t =
           ([Upload (the_upload t f name), GetPublicUrl (filePath t name)],
            Inr \<lparr>status = 200, headers = [], json = UploadJson u (filePath t name)\<rparr>)"
      with True post h show ?thesis
        by auto
    next
      fix f name m
      assume "req_body req = Some (JString f, JString name)" "f \<noteq> []" "name \<noteq> []"
        "upload st (the_upload t f name) = Returns (Some m)"
        "try_block st req t =
           ([Upload (the_upload t f name)], Inr (error_response 500 (UploadFailed m)))"
      with True post h show ?thesis
        by (auto simp: error_response_def)
    next
      fix f name
      assume "req_body req = Some (JString f, JString name)" "f \<noteq> []" "name \<noteq> []"
        "upload st (the_upload t f name) = Returns None"
        "getPublicUrl st (filePath t name) \<in> {Returns None, Returns (Some [])}"
        "try_block st req t =
           ([Upload (the_upload t f name), GetPublicUrl (filePath t name)],
            Inr (error_response 500 UrlRetrievalFailed))"
      with True post h show ?thesis
        by (auto simp: error_response_def)
    next
      fix cs e
      assume a: "\<forall>fl fileName. req_body req = Some (fl, fileName) \<longrightarrow> truthy fl \<and> truthy fileName"
        "try_block st req t = (cs, Inl e)"
      have no_ok: "\<not> (\<exists>f name u. req_body req = Some (JString f, JString name) \<and> f \<noteq> [] \<and> name \<noteq> [] \<and>
               upload st (the_upload t f name) = Returns None \<and>
               getPublicUrl st (filePath t name) = Returns (Some u) \<and> u \<noteq> [])"
      proof
        assume "\<exists>f name u. req_body req = Some (JString f, JString name) \<and> f \<noteq> [] \<and> name \<noteq> [] \<and>
               upload st (the_upload t f name) = Returns None \<and>
               getPublicUrl st (filePath t name) = Returns (Some u) \<and> u \<noteq> []"
        then have "\<exists>cs r. try_block st req t = (cs, Inr r)"
          by (auto simp: try_block_def the_upload_def Let_def)
        with a show False by simp
      qed
      from a True post h no_ok show ?thesis
        by (auto simp: catch_block_def error_response_def)
    qed
  qed
qed

text \<open>
  Claim C6. Every upload the handler makes has the key \<open>messages/\<close>, the timestamp in
  decimal, \<open>-\<close>, and the file name in which each character outside \<open>[a-zA-Z0-9.-]\<close> is
  replaced by an underscore; after the prefix \<open>messages/\<close> every character of the key is
  in \<open>[a-zA-Z0-9.-]\<close> or an underscore, and none is a slash.
\<close>
theorem storage_key:
  assumes "Upload rq \<in> set (calls (handler st admin req t))"
  shows "\<exists>fl name rest.
           req_body req = Some (fl, JString name) \<and>
           upload_path rq = ''messages/'' @ rest \<and>
           rest = decimal t @ ''-'' @ sanitizedFileName name \<and>
           length (sanitizedFileName name) = length name \<and>
           (\<forall>i < length name.
              sanitizedFileName name ! i = (if is_safe_char (name ! i) then name ! i else CHR ''_'')) \<and>
           (\<forall>c \<in> set rest. is_safe_char c \<or> c = CHR ''_'') \<and>
           CHR ''/'' \<notin> set rest"
proof -
  from handler_upload_call[OF assms] obtain f name where
    b: "req_body req = Some (JString f, JString name)" and
    p: "upload_path rq = filePath t name"
    by auto
  let ?rest = "decimal t @ ''-'' @ sanitizedFileName name"
  have chars: "\<forall>c \<in> set ?rest. is_safe_char c \<or> c = CHR ''_''"
    using uniqueFileName_chars[of _ t name] by (simp add: uniqueFileName_def)
  then have slash: "CHR ''/'' \<notin> set ?rest"
    using safe_not_slash by blast
  have "upload_path rq = ''messages/'' @ ?rest"
    using p by (simp add: filePath_def uniqueFileName_def)
  moreover have "length (sanitizedFileName name) = length name"
    by (simp add: sanitizedFileName_def)
  moreover have "\<forall>i < length name.
      sanitizedFileName name ! i = (if is_safe_char (name ! i) then name ! i else CHR ''_'')"
    by (simp add: sanitizedFileName_def)
  ultimately show ?thesis
    using b chars slash by blast
qed

lemma sample_decimal: "decimal 1730000000123 = ''1730000000123''"
  by (simp add: decimal.simps digit_char_def)

lemma sample_sanitized: "sanitizedFileName ''Photo de profil.PNG'' = ''Photo_de_profil.PNG''"
  by (simp add: sanitizedFileName_def is_safe_char_def is_lower_def is_upper_def is_digit_def)

lemma sample_contentType: "contentType ''Photo de profil.PNG'' = PString ''image/png''"
  by (simp add: contentType_def fileExtension_def pop_def toLowerCase_def lower_char_def
        get_property_def mimeTypes_def)

lemma sample_base64: "base64Data ''data:image/png;base64,iVBORw0KGgo='' = ''iVBORw0KGgo=''"
  by (simp add: base64Data_def is_word_char_def is_lower_def is_upper_def is_digit_def)

lemma sample_handler:
  "handler sample_storage True sample_request 1730000000123 =
     \<lparr>calls = [Upload (the_upload 1730000000123 ''data:image/png;base64,iVBORw0KGgo=''
                          ''Photo de profil.PNG''),
               GetPublicUrl ''messages/1730000000123-Photo_de_profil.PNG''],
      responded =
        Some \<lparr>status = 200, headers = [],
              json = UploadJson ''https://cdn.example/messages/1730000000123-Photo_de_profil.PNG''
                       ''messages/1730000000123-Photo_de_profil.PNG''\<rparr>\<rparr>"
  by (simp add: handler_def try_block_def sample_storage_def sample_request_def the_upload_def
        filePath_def uniqueFileName_def sample_decimal sample_sanitized Let_def)

lemma sample_the_upload:
  "the_upload 1730000000123 ''data:image/png;base64,iVBORw0KGgo='' ''Photo de profil.PNG'' =
     \<lparr>upload_path = ''messages/1730000000123-Photo_de_profil.PNG'',
      upload_base64 = ''iVBORw0KGgo='',
      upload_contentType = PString ''image/png'',
      upload_upsert = False\<rparr>"
  by (simp add: the_upload_def filePath_def uniqueFileName_def sample_decimal sample_sanitized sample_contentType sample_base64)

theorem storage_key_witness:
  "Upload (the_upload 1730000000123 ''data:image/png;base64,iVBORw0KGgo='' ''Photo de profil.PNG'')
     \<in> set (calls (handler sample_storage True sample_request 1730000000123)) \<and>
   upload_path (the_upload 1730000000123 ''data:image/png;base64,iVBORw0KGgo=''
                  ''Photo de profil.PNG'') =
     ''messages/1730000000123-Photo_de_profil.PNG'' \<and>
   CHR ''/'' \<notin> set ''1730000000123-Photo_de_profil.PNG''"
proof -
  let ?rq = "the_upload 1730000000123 ''data:image/png;base64,iVBORw0KGgo='' ''Photo de profil.PNG''"
  have h: "Upload ?rq \<in> set (calls (handler sample_storage True sample_request 1730000000123))"
    by (simp add: sample_handler)
  from storage_key[OF h] obtain rest where
    "upload_path ?rq = ''messages/'' @ rest" "CHR ''/'' \<notin> set rest"
    by blast
  then have "CHR ''/'' \<notin> set ''1730000000123-Photo_de_profil.PNG''"
    by (simp add: sample_the_upload)
  with h show ?thesis by (simp add: sample_the_upload)
qed

lemma fileExtension_eq:
  "fileExtension name =
     (if toLowerCase (after_last_dot name) = [] then ''jpg'' else toLowerCase (after_last_dot name))"
  by (simp add: fileExtension_def pop_def split_dot_nonempty last_split_dot)

lemma contentType_table:
  "contentType name =
     (case map_of mimeTypes (fileExtension name) of
        Some m \<Rightarrow> PString m
      | None \<Rightarrow> (if fileExtension name \<in> set object_prototype_keys
                 then PInherited (fileExtension name) else PString ''image/jpeg''))"
proof -
  have "m \<noteq> []" if "map_of mimeTypes k = Some m" for k m
    using that by (auto simp: mimeTypes_def split: if_splits)
  then show ?thesis
    by (auto simp: contentType_def get_property_def split: option.splits)
qed

lemma contentType_in_table:
  "map_of mimeTypes (fileExtension name) = Some m \<Longrightarrow> contentType name = PString m"
  by (simp add: contentType_table)

lemma contentType_default:
  assumes "fileExtension name \<notin> {''jpg'', ''jpeg'', ''png'', ''gif'', ''webp'', ''svg''}"
    and "fileExtension name \<notin> set object_prototype_keys"
  shows "contentType name = PString ''image/jpeg''"
proof -
  from assms(1) have "map_of mimeTypes (fileExtension name) = None"
    by (simp add: mimeTypes_def)
  with assms(2) show ?thesis by (simp add: contentType_table)
qed

text \<open>
  Claim C5, as amended. For every upload the handler makes, the key of the lookup is the
  lowercased text after the last dot of the file name (the whole lowercased name when it
  has no dot), or \<open>jpg\<close> when that text is empty. The content type is the entry of the
  table for a key of the table, and \<open>image/jpeg\<close> for every other key that is not the
  name of a property inherited from \<open>Object.prototype\<close>.
\<close>
theorem content_type_lookup:
  assumes "Upload rq \<in> set (calls (handler st admin req t))"
  shows "\<exists>fl name key.
           req_body req = Some (fl, JString name) \<and>
           key = (if toLowerCase (after_last_dot name) = [] then ''jpg''
                  else toLowerCase (after_last_dot name)) \<and>
           (key = ''jpg'' \<or> key = ''jpeg'' \<longrightarrow> upload_contentType rq = PString ''image/jpeg'') \<and>
           (key = ''png'' \<longrightarrow> upload_contentType rq = PString ''image/png'') \<and>
           (key = ''gif'' \<longrightarrow> upload_contentType rq = PString ''image/gif'') \<and>
           (key = ''webp'' \<longrightarrow> upload_contentType rq = PString ''image/webp'') \<and>
           (key = ''svg'' \<longrightarrow> upload_contentType rq = PString ''image/svg+xml'') \<and>
           (key \<notin> {''jpg'', ''jpeg'', ''png'', ''gif'', ''webp'', ''svg''} \<and>
            key \<notin> set object_prototype_keys \<longrightarrow>
              upload_contentType rq = PString ''image/jpeg'')"
proof -
  from handler_upload_call[OF assms] obtain f name where
    b: "req_body req = Some (JString f, JString name)" and
    c: "upload_contentType rq = contentType name"
    by auto
  have t: "map_of mimeTypes ''jpg'' = Some ''image/jpeg''"
    "map_of mimeTypes ''jpeg'' = Some ''image/jpeg''"
    "map_of mimeTypes ''png'' = Some ''image/png''"
    "map_of mimeTypes ''gif'' = Some ''image/gif''"
    "map_of mimeTypes ''webp'' = Some ''image/webp''"
    "map_of mimeTypes ''svg'' = Some ''image/svg+xml''"
    by (simp_all add: mimeTypes_def)
  show ?thesis
  proof (intro exI conjI)
    show "req_body req = Some (JString f, JString name)" by (rule b)
    show "fileExtension name =
        (if toLowerCase (after_last_dot name) = [] then ''jpg''
         else toLowerCase (after_last_dot name))"
      by (rule fileExtension_eq)
    show "fileExtension name = ''jpg'' \<or> fileExtension name = ''jpeg'' \<longrightarrow>
        upload_contentType rq = PString ''image/jpeg''"
      using contentType_in_table[of name] t(1,2) c by metis
    show "fileExtension name = ''png'' \<longrightarrow> upload_contentType rq = PString ''image/png''"
      using contentType_in_table[of name] t(3) c by metis
    show "fileExtension name = ''gif'' \<longrightarrow> upload_contentType rq = PString ''image/gif''"
      using contentType_in_table[of name] t(4) c by metis
    show "fileExtension name = ''webp'' \<longrightarrow> upload_contentType rq = PString ''image/webp''"
      using contentType_in_table[of name] t(5) c by metis
    show "fileExtension name = ''svg'' \<longrightarrow> upload_contentType rq = PString ''image/svg+xml''"
      using contentType_in_table[of name] t(6) c by metis
    show "fileExtension name \<notin> {''jpg'', ''jpeg'', ''png'', ''gif'', ''webp'', ''svg''} \<and>
        fileExtension name \<notin> set object_prototype_keys \<longrightarrow>
        upload_contentType rq = PString ''image/jpeg''"
      using contentType_default[of name] c by simp
  qed
qed

theorem content_type_lookup_witness:
  "Upload (the_upload 1730000000123 ''data:image/png;base64,iVBORw0KGgo='' ''Photo de profil.PNG'')
     \<in> set (calls (handler sample_storage True sample_request 1730000000123)) \<and>
   toLowerCase (after_last_dot ''Photo de profil.PNG'') = ''png'' \<and>
   upload_contentType (the_upload 1730000000123 ''data:image/png;base64,iVBORw0KGgo=''
                         ''Photo de profil.PNG'') = PString ''image/png''"
proof -
  let ?rq = "the_upload 1730000000123 ''data:image/png;base64,iVBORw0KGgo='' ''Photo de profil.PNG''"
  have h: "Upload ?rq \<in> set (calls (handler sample_storage True sample_request 1730000000123))"
    by (simp add: sample_handler)
  have k: "toLowerCase (after_last_dot ''Photo de profil.PNG'') = ''png''"
    by (simp add: after_last_dot_def toLowerCase_def lower_char_def)
  from content_type_lookup[OF h] obtain fl name where
    n: "req_body sample_request = Some (fl, JString name)" and
    i: "(if toLowerCase (after_last_dot name) = [] then ''jpg''
         else toLowerCase (after_last_dot name)) = ''png'' \<longrightarrow>
        upload_contentType ?rq = PString ''image/png''"
    by blast
  from n have "name = ''Photo de profil.PNG''"
    by (simp add: sample_request_def)
  with i k have "upload_contentType ?rq = PString ''image/png''"
    by simp
  with h k show ?thesis by simp
qed

text \<open>
  Claim C5 as stated fails: the file name \<open>png\<close> has no dot, and its content type is
  \<open>image/png\<close>, not \<open>image/jpeg\<close>.
\<close>
theorem content_type_no_dot_counterexample:
  "contentType ''png'' = PString ''image/png'' \<and> spec_contentType ''png'' = ''image/jpeg''"
  by (simp add: contentType_table fileExtension_eq after_last_dot_def toLowerCase_def
        lower_char_def mimeTypes_def spec_contentType_def)

text \<open>
  A key that names an inherited property finds that property: the content type of
  \<open>photo.constructor\<close> is no string at all.
\<close>
lemma content_type_inherited_key:
  "contentType ''photo.constructor'' = PInherited ''constructor''"
  by (simp add: contentType_table fileExtension_eq after_last_dot_def toLowerCase_def
        lower_char_def mimeTypes_def object_prototype_keys_def)

theorem handler_response_witness:
  "responded (handler sample_storage True sample_request 1730000000123) =
     Some \<lparr>status = 200, headers = [],
           json = UploadJson ''https://cdn.example/messages/1730000000123-Photo_de_profil.PNG''
                    ''messages/1730000000123-Photo_de_profil.PNG''\<rparr> \<and>
   responded (handler sample_storage False sample_request 1730000000123) = None \<and>
   calls (handler sample_storage False sample_request 1730000000123) = []"
  using handler_response[of False sample_storage sample_request 1730000000123]
    handler_response[of True sample_storage sample_request 1730000000123]
  by (simp add: sample_handler)

section \<open>Properties of the calendar\<close>

lemma div_succ:
  fixes a k :: int
  assumes "0 < k"
  shows "(a + 1) div k = a div k + (if k dvd a + 1 then 1 else 0)"
proof (cases "a mod k = k - 1")
  case True
  have "a = k * (a div k) + (k - 1)"
    by (metis True mult_div_mod_eq)
  then have e: "a + 1 = k * (a div k + 1) + 0"
    by (simp add: algebra_simps)
  from int_div_pos_eq[OF e] assms have "(a + 1) div k = a div k + 1" by simp
  moreover from e have "k dvd a + 1" by (metis add.right_neutral dvd_triv_left)
  ultimately show ?thesis by simp
next
  case False
  have r: "0 \<le> a mod k" "a mod k < k" using assms by simp_all
  with False have lt: "a mod k + 1 < k" by simp
  have e: "a + 1 = k * (a div k) + (a mod k + 1)" by simp
  from int_div_pos_eq[OF e _ lt] r have d: "(a + 1) div k = a div k" by simp
  from int_mod_pos_eq[OF e _ lt] r have "(a + 1) mod k = a mod k + 1" by simp
  with r have "\<not> k dvd a + 1" by (simp add: dvd_eq_mod_eq_0)
  with d show ?thesis by simp
qed

lemma dayFromYear_Suc:
  "dayFromYear (y + 1) = dayFromYear y + (if isLeapYear y then 366 else 365)"
proof -
  have d4: "(y + 1 - 1969) div 4 = (y - 1969) div 4 + (if 4 dvd y then 1 else 0)"
    using div_succ[of 4 "y - 1969"] dvd_diff_left_iff[of 4 1968 y] by (simp add: algebra_simps)
  have d100: "(y + 1 - 1901) div 100 = (y - 1901) div 100 + (if 100 dvd y then 1 else 0)"
    using div_succ[of 100 "y - 1901"] dvd_diff_left_iff[of 100 1900 y] by (simp add: algebra_simps)
  have d400: "(y + 1 - 1601) div 400 = (y - 1601) div 400 + (if 400 dvd y then 1 else 0)"
    using div_succ[of 400 "y - 1601"] dvd_diff_left_iff[of 400 1600 y] by (simp add: algebra_simps)
  have a: "400 dvd y \<Longrightarrow> 100 dvd y" by (rule dvd_trans[of 100 400 y]) simp_all
  have b: "100 dvd y \<Longrightarrow> 4 dvd y" by (rule dvd_trans[of 4 100 y]) simp_all
  show ?thesis
    unfolding dayFromYear_def isLeapYear_def mod_eq_0_iff_dvd d4 d100 d400
    using a b by (cases "4 dvd y"; cases "100 dvd y"; cases "400 dvd y"; simp)
qed

lemma month_cases:
  assumes "1 \<le> m" "m \<le> (12::nat)"
  shows "m \<in> {1, 2, 3, 4, 5, 6, 7, 8, 9, 10, 11, 12}"
  using assms by (simp only: insert_iff empty_iff) arith

lemma daysBeforeMonth_Suc:
  assumes "1 \<le> m" "m < 12"
  shows "daysBeforeMonth y (m + 1) = daysBeforeMonth y m + daysInMonth y m"
proof -
  from assms have "m \<in> {1, 2, 3, 4, 5, 6, 7, 8, 9, 10, 11}"
    by (simp only: insert_iff empty_iff) arith
  then show ?thesis
    by (auto simp: daysBeforeMonth_def daysInMonth_def)
qed

lemma daysBeforeMonth_12:
  "daysBeforeMonth y 12 + 31 = (if isLeapYear y then 366 else 365)"
  by (simp add: daysBeforeMonth_def)

lemma daysInMonth_pos [simp]: "0 < daysInMonth y m" "Suc 0 \<le> daysInMonth y m"
  by (simp_all add: daysInMonth_def)

lemma valid_nextDay: "valid_date d \<Longrightarrow> valid_date (nextDay d)"
  by (auto simp: valid_date_def nextDay_def)

lemma dayNumber_nextDay:
  assumes "valid_date d"
  shows "dayNumber (nextDay d) = dayNumber d + 1"
proof -
  consider (a) "dayOfMonth d < daysInMonth (fullYear d) (month d)"
    | (b) "dayOfMonth d = daysInMonth (fullYear d) (month d)" "month d < 12"
    | (c) "dayOfMonth d = daysInMonth (fullYear d) (month d)" "month d = 12"
    using assms unfolding valid_date_def by (cases "month d = 12") force+
  then show ?thesis
  proof cases
    case a
    then show ?thesis by (simp add: nextDay_def dayNumber_def)
  next
    case b
    with assms daysBeforeMonth_Suc[of "month d" "fullYear d"] show ?thesis
      by (simp add: nextDay_def dayNumber_def valid_date_def)
  next
    case c
    with daysBeforeMonth_12[of "fullYear d"] dayFromYear_Suc[of "fullYear d"] show ?thesis
      by (simp add: nextDay_def dayNumber_def daysInMonth_def daysBeforeMonth_def split: if_splits)
  qed
qed

lemma valid_prevDay: "valid_date d \<Longrightarrow> valid_date (prevDay d)"
  by (auto simp: valid_date_def prevDay_def) (simp_all add: daysInMonth_def)

lemma nextDay_prevDay: "valid_date d \<Longrightarrow> nextDay (prevDay d) = d"
  by (auto simp: valid_date_def prevDay_def nextDay_def daysInMonth_def)

lemma dayNumber_prevDay:
  assumes "valid_date d"
  shows "dayNumber (prevDay d) = dayNumber d - 1"
  using dayNumber_nextDay[OF valid_prevDay[OF assms]] nextDay_prevDay[OF assms] by simp

lemma dayNumber_startOfDay [simp]: "dayNumber (startOfDay d) = dayNumber d"
  by (simp add: startOfDay_def dayNumber_def)

lemma dayNumber_endOfDay [simp]: "dayNumber (endOfDay d) = dayNumber d"
  by (simp add: endOfDay_def dayNumber_def)

lemma valid_startOfDay: "valid_date d \<Longrightarrow> valid_date (startOfDay d)"
  by (simp add: startOfDay_def valid_date_def msPerDay_def)

lemma valid_date_ms: "valid_date d \<Longrightarrow> m < msPerDay \<Longrightarrow> valid_date (d\<lparr>msOfDay := m\<rparr>)"
  by (simp add: valid_date_def)

lemma getTime_startOfDay: "getTime (startOfDay d) = dayNumber d * int msPerDay"
  by (simp add: getTime_def startOfDay_def dayNumber_def)

lemma getTime_endOfDay: "getTime (endOfDay d) = dayNumber d * int msPerDay + int msPerDay - 1"
  by (simp add: getTime_def endOfDay_def dayNumber_def msPerDay_def)

lemma getTime_step:
  assumes "valid_date d"
  shows "getTime d < getTime (startOfDay (nextDay d))"
proof -
  from assms have "int (msOfDay d) < int msPerDay" by (simp add: valid_date_def)
  then show ?thesis
    by (simp add: getTime_startOfDay dayNumber_nextDay[OF assms] getTime_def algebra_simps)
qed

termination eachDay_loop
proof (relation "measure (\<lambda>(c, e). nat (getTime e - getTime c + 1))", goal_cases)
  case 1
  show ?case by simp
next
  case (2 c e)
  then have "getTime c < getTime (startOfDay (nextDay c))" "getTime c \<le> getTime e"
    using getTime_step[of c] by simp_all
  then show ?case by simp
qed

declare eachDay_loop.simps [simp del]

lemma msOfDay_prevDay [simp]: "msOfDay (prevDay d) = msOfDay d"
  by (simp add: prevDay_def)

lemma subDays_props:
  "valid_date d \<Longrightarrow>
     valid_date (subDays d n) \<and> dayNumber (subDays d n) = dayNumber d - int n \<and>
     msOfDay (subDays d n) = msOfDay d"
proof (induction n arbitrary: d)
  case 0
  then show ?case by simp
next
  case (Suc n)
  from Suc.IH[OF valid_prevDay[OF Suc.prems]] dayNumber_prevDay[OF Suc.prems]
  show ?case by simp
qed

lemma subMonths_month:
  "valid_month (subMonths d n) \<and>
   (valid_month d \<longrightarrow> monthIndex (subMonths d n) = monthIndex d - int n)"
proof -
  let ?i = "fullYear d * 12 + int (month d) - 1 - int n"
  have r: "0 \<le> ?i mod 12" "?i mod 12 < 12" by simp_all
  have "monthIndex (subMonths d n) = (?i div 12) * 12 + ?i mod 12"
    using r by (simp add: subMonths_def monthIndex_def Let_def)
  then have "monthIndex (subMonths d n) = ?i" by simp
  moreover have "valid_month (subMonths d n)"
    using r by (simp add: subMonths_def valid_month_def Let_def)
  ultimately show ?thesis by (simp add: monthIndex_def)
qed

lemma valid_startOfMonth: "valid_month d \<Longrightarrow> valid_date (startOfMonth d)"
  by (simp add: valid_month_def valid_date_def startOfMonth_def msPerDay_def)

lemma valid_endOfMonth: "valid_month d \<Longrightarrow> valid_date (endOfMonth d)"
  by (simp add: valid_month_def valid_date_def endOfMonth_def msPerDay_def)

lemma valid_date_month: "valid_date d \<Longrightarrow> valid_month d"
  by (simp add: valid_month_def valid_date_def)

lemma consecutive_months:
  assumes a: "valid_month a" and b: "valid_month b" and i: "monthIndex b = monthIndex a + 1"
  shows "dayNumber (startOfMonth b) = dayNumber (endOfMonth a) + 1"
proof -
  have nd: "dayNumber (nextDay (endOfMonth a)) = dayNumber (endOfMonth a) + 1"
    by (rule dayNumber_nextDay[OF valid_endOfMonth[OF a]])
  from a b i have "(month a < 12 \<and> fullYear b = fullYear a \<and> month b = month a + 1) \<or>
                   (month a = 12 \<and> fullYear b = fullYear a + 1 \<and> month b = 1)"
    unfolding valid_month_def monthIndex_def by arith
  then have "dayNumber (startOfMonth b) = dayNumber (nextDay (endOfMonth a))"
    by (auto simp: dayNumber_def startOfMonth_def nextDay_def endOfMonth_def)
  with nd show ?thesis by simp
qed

lemma dayNumber_startOfMonth:
  "dayNumber (startOfMonth d) = dayNumber d - int (dayOfMonth d) + 1"
  by (simp add: dayNumber_def startOfMonth_def)

lemma dayNumber_endOfMonth:
  "dayNumber (endOfMonth d) = dayNumber (startOfMonth d) + int (daysInMonth (fullYear d) (month d)) - 1"
  by (simp add: dayNumber_def startOfMonth_def endOfMonth_def)

lemma month_length:
  "dayNumber (endOfMonth d) - dayNumber (startOfMonth d) + 1 =
     int (daysInMonth (fullYear d) (month d))"
  by (simp add: dayNumber_endOfMonth)

lemma getTime_le_iff:
  assumes "msOfDay c = 0" "valid_date e"
  shows "getTime c \<le> getTime e \<longleftrightarrow> dayNumber c \<le> dayNumber e"
proof -
  from assms(2) have "int (msOfDay e) < 86400000"
    by (simp add: valid_date_def msPerDay_def)
  with assms(1) show ?thesis
    by (simp add: getTime_def msPerDay_def) arith
qed

lemma eachDay_loop_days:
  assumes "valid_date c" "msOfDay c = 0" "valid_date e"
  shows "map dayNumber (eachDay_loop c e) = [dayNumber c..dayNumber e] \<and>
         (\<forall>d \<in> set (eachDay_loop c e). valid_date d \<and> msOfDay d = 0)"
  using assms
proof (induction c e rule: eachDay_loop.induct)
  case (1 c e)
  show ?case
  proof (cases "dayNumber c \<le> dayNumber e")
    case True
    with "1.prems" have g: "valid_date c \<and> getTime c \<le> getTime e"
      by (simp add: getTime_le_iff)
    let ?n = "startOfDay (nextDay c)"
    have v: "valid_date ?n" "msOfDay ?n = 0" "dayNumber ?n = dayNumber c + 1"
      using "1.prems"(1) by (simp_all add: valid_startOfDay valid_nextDay dayNumber_nextDay)
         (simp add: startOfDay_def)
    from "1.IH"[OF g v(1,2) "1.prems"(3)] v(3)
    have ih: "map dayNumber (eachDay_loop ?n e) = [dayNumber c + 1..dayNumber e]"
      "\<forall>d \<in> set (eachDay_loop ?n e). valid_date d \<and> msOfDay d = 0"
      by simp_all
    have "eachDay_loop c e = c # eachDay_loop ?n e"
      using g by (subst eachDay_loop.simps) simp
    with ih "1.prems" True show ?thesis
      by (simp add: upto_rec1)
  next
    case False
    with "1.prems" have "\<not> getTime c \<le> getTime e"
      by (simp add: getTime_le_iff)
    then have "eachDay_loop c e = []"
      by (subst eachDay_loop.simps) simp
    with False show ?thesis by simp
  qed
qed

lemma eachDayOfInterval_days:
  assumes "valid_date s" "valid_date e"
  shows "map dayNumber (eachDayOfInterval s e) = [dayNumber s..dayNumber e] \<and>
         (\<forall>d \<in> set (eachDayOfInterval s e). valid_date d \<and> msOfDay d = 0)"
  using eachDay_loop_days[OF valid_startOfDay[OF assms(1)] _ assms(2)]
  by (simp add: eachDayOfInterval_def) (simp add: startOfDay_def)

lemma isSameDay_iff: "isSameDay a b \<longleftrightarrow> dayNumber a = dayNumber b"
  by (simp add: isSameDay_def getTime_startOfDay msPerDay_def)

section \<open>Properties of the numbers\<close>

lemma pow2_pos [simp]: "0 < pow2 e"
  by (simp add: pow2_def)

lemma pow2_Suc: "pow2 (e + 1) = 2 * pow2 e"
proof (cases "0 \<le> e")
  case True
  then show ?thesis by (simp add: pow2_def nat_add_distrib)
next
  case False
  then have "nat (- e) = Suc (nat (- (e + 1)))" by simp
  with False show ?thesis
    by (cases "e = -1") (simp_all add: pow2_def)
qed

lemma pow2_nat: "pow2 (int n) = 2 ^ n"
  by (simp add: pow2_def)

lemma pow2_add_nat: "pow2 (e + int n) = 2 ^ n * pow2 e"
proof (induction n)
  case 0
  then show ?case by simp
next
  case (Suc n)
  have "pow2 (e + int (Suc n)) = pow2 ((e + int n) + 1)" by (simp add: algebra_simps)
  also have "\<dots> = 2 * pow2 (e + int n)" by (rule pow2_Suc)
  finally show ?case using Suc by simp
qed

lemma exponent_bounds:
  assumes "x \<noteq> 0"
  shows "pow2 (exponent x) \<le> \<bar>x\<bar> \<and> \<bar>x\<bar> < pow2 (exponent x + 1)"
proof (cases "1 \<le> \<bar>x\<bar>")
  case True
  let ?n = "\<lfloor>\<bar>x\<bar>\<rfloor>"
  from True have n: "0 < ?n" by simp
  from bitlen_bounds[OF n] have b: "2 ^ nat (bitlen ?n - 1) \<le> ?n" "?n < 2 ^ nat (bitlen ?n)"
    by simp_all
  from n have bl: "1 \<le> bitlen ?n"
    using bitlen_eq_zero_iff[of ?n] bitlen_nonneg[of ?n] by linarith
  have e: "exponent x = bitlen ?n - 1" using True by (simp add: exponent_def)
  have "pow2 (bitlen ?n - 1) = 2 ^ nat (bitlen ?n - 1)"
    using bl by (simp add: pow2_def)
  also have "\<dots> = of_int (2 ^ nat (bitlen ?n - 1))" by simp
  also have "\<dots> \<le> of_int ?n" using b(1) by (simp only: of_int_le_iff)
  also have "\<dots> \<le> \<bar>x\<bar>" by simp
  finally have lo: "pow2 (exponent x) \<le> \<bar>x\<bar>" by (simp add: e)
  from b(2) have "?n + 1 \<le> 2 ^ nat (bitlen ?n)" by simp
  then have "of_int (?n + 1) \<le> (of_int (2 ^ nat (bitlen ?n)) :: real)"
    by (simp only: of_int_le_iff)
  then have "of_int ?n + 1 \<le> (2 ^ nat (bitlen ?n) :: real)" by simp
  moreover have "\<bar>x\<bar> < of_int ?n + 1" by linarith
  ultimately have "\<bar>x\<bar> < 2 ^ nat (bitlen ?n)" by linarith
  moreover have "pow2 (exponent x + 1) = 2 ^ nat (bitlen ?n)"
    using bl by (simp add: e pow2_def)
  ultimately show ?thesis using lo by simp
next
  case False
  with assms have a: "0 < \<bar>x\<bar>" "\<bar>x\<bar> < 1" by simp_all
  let ?y = "1 / \<bar>x\<bar>"
  let ?c = "\<lceil>?y\<rceil>"
  from a have y: "1 < ?y" by simp
  then have c2: "2 \<le> ?c" by linarith
  then have c: "0 < ?c - 1" by simp
  let ?j = "bitlen (?c - 1)"
  from bitlen_bounds[OF c] have b: "2 ^ nat (?j - 1) \<le> ?c - 1" "?c - 1 < 2 ^ nat ?j"
    by simp_all
  from c have jl: "1 \<le> ?j"
    using bitlen_eq_zero_iff[of "?c - 1"] bitlen_nonneg[of "?c - 1"] by linarith
  have e: "exponent x = - ?j" using False by (simp add: exponent_def)
  have "of_int (2 ^ nat (?j - 1)) \<le> (of_int (?c - 1) :: real)"
    using b(1) by (simp only: of_int_le_iff)
  moreover have "of_int (?c - 1) < ?y" by linarith
  ultimately have lo: "2 ^ nat (?j - 1) < ?y" by simp
  from b(2) have "?c \<le> 2 ^ nat ?j" by simp
  then have "real_of_int ?c \<le> 2 ^ nat ?j"
    by (metis of_int_le_iff of_int_numeral of_int_power)
  moreover have "?y \<le> real_of_int ?c" by (rule le_of_int_ceiling)
  ultimately have hi: "?y \<le> 2 ^ nat ?j" by linarith
  have p1: "pow2 (- ?j) = 1 / 2 ^ nat ?j"
    using jl by (simp add: pow2_def)
  have p2: "pow2 (1 - ?j) = 1 / 2 ^ nat (?j - 1)"
  proof (cases "?j = 1")
    case True
    then show ?thesis by (simp add: pow2_def)
  next
    case False
    with jl have "nat (- (1 - ?j)) = nat (?j - 1)" "\<not> 0 \<le> 1 - ?j" by simp_all
    then show ?thesis by (simp add: pow2_def)
  qed
  from hi a have "1 / 2 ^ nat ?j \<le> \<bar>x\<bar>"
    by (simp add: field_simps)
  moreover from lo a have "\<bar>x\<bar> < 1 / 2 ^ nat (?j - 1)"
    by (simp add: field_simps)
  ultimately show ?thesis by (simp add: e p1 p2)
qed

lemma roundTiesToEven_error: "\<bar>of_int (roundTiesToEven y) - y\<bar> \<le> 1 / 2"
proof -
  have "0 \<le> y - of_int \<lfloor>y\<rfloor>" "y - of_int \<lfloor>y\<rfloor> < 1" by linarith+
  then show ?thesis
    by (auto simp: roundTiesToEven_def)
qed

lemma fround_error: "\<bar>fround x - x\<bar> \<le> \<bar>x\<bar> / 2 ^ 53"
proof (cases "x = 0")
  case True
  then show ?thesis by (simp add: fround_def)
next
  case False
  let ?e = "exponent x - 52"
  let ?m = "roundTiesToEven (\<bar>x\<bar> / pow2 ?e)"
  have p: "pow2 (exponent x) = 2 ^ 52 * pow2 ?e"
    using pow2_add_nat[of ?e 52] by simp
  from exponent_bounds[OF False] have lo: "2 ^ 52 * pow2 ?e \<le> \<bar>x\<bar>" by (simp add: p)
  have "fround x - x = sgn x * (of_int ?m * pow2 ?e - \<bar>x\<bar>)"
    using False by (simp add: fround_def algebra_simps flip: abs_sgn)
       (metis mult.commute mult_sgn_abs)
  then have "\<bar>fround x - x\<bar> = \<bar>of_int ?m * pow2 ?e - \<bar>x\<bar>\<bar>"
    using False by (simp add: abs_mult abs_sgn_eq)
  also have "of_int ?m * pow2 ?e - \<bar>x\<bar> = (of_int ?m - \<bar>x\<bar> / pow2 ?e) * pow2 ?e"
  proof -
    have "pow2 ?e \<noteq> 0" using pow2_pos[of ?e] by linarith
    then show ?thesis by (simp add: field_simps)
  qed
  also have "\<bar>\<dots>\<bar> = \<bar>of_int ?m - \<bar>x\<bar> / pow2 ?e\<bar> * pow2 ?e"
    by (simp add: abs_mult abs_of_pos)
  also have "\<dots> \<le> 1 / 2 * pow2 ?e"
    by (rule mult_right_mono[OF roundTiesToEven_error]) (rule less_imp_le[OF pow2_pos])
  also have "\<dots> \<le> \<bar>x\<bar> / 2 ^ 53"
    using lo by simp
  finally show ?thesis .
qed

lemma percent_error:
  "\<bar>fmul (fdiv a b) 100 - a / b * 100\<bar> \<le> \<bar>a / b * 100\<bar> / 2 ^ 51"
proof -
  define q where "q = a / b"
  define q' where "q' = fround q"
  define r where "r = fround (q' * 100)"
  define A where "A = \<bar>q' - q\<bar>"
  define B where "B = \<bar>r - q' * 100\<bar>"
  define Q where "Q = \<bar>q\<bar>"
  define Q' where "Q' = \<bar>q'\<bar>"
  have 1: "A \<le> Q / 2 ^ 53"
    unfolding A_def Q_def q'_def by (rule fround_error)
  have "B \<le> \<bar>q' * 100\<bar> / 2 ^ 53"
    unfolding B_def r_def by (rule fround_error)
  then have 2: "B \<le> Q' * 100 / 2 ^ 53"
    by (simp add: Q'_def abs_mult)
  have 3: "Q' \<le> Q + A"
    unfolding Q'_def Q_def A_def by linarith
  have "\<bar>r - q * 100\<bar> = \<bar>(r - q' * 100) + (q' - q) * 100\<bar>"
    by (simp add: algebra_simps)
  also have "\<dots> \<le> \<bar>r - q' * 100\<bar> + \<bar>(q' - q) * 100\<bar>"
    by (rule abs_triangle_ineq)
  also have "\<bar>(q' - q) * 100\<bar> = A * 100"
    by (simp only: A_def abs_mult abs_numeral)
  finally have 4: "\<bar>r - q * 100\<bar> \<le> B + A * 100"
    by (simp only: B_def)
  have Q0: "0 \<le> Q" by (simp add: Q_def)
  from 1 2 3 have "B + A * 100 \<le> (Q + Q / 2 ^ 53) * 100 / 2 ^ 53 + Q / 2 ^ 53 * 100"
    by (simp add: field_simps)
  also have "\<dots> = Q * 100 * (2 / 2 ^ 53 + 1 / (2 ^ 53 * 2 ^ 53))"
    by (simp add: field_simps)
  also have "\<dots> \<le> Q * 100 * (1 / 2 ^ 51)"
    using Q0 by (intro mult_left_mono) simp_all
  finally have "B + A * 100 \<le> Q * 100 / 2 ^ 51" by simp
  with 4 have "\<bar>r - q * 100\<bar> \<le> Q * 100 / 2 ^ 51" by linarith
  then show ?thesis
    by (simp add: r_def q'_def q_def Q_def fmul_def fdiv_def abs_mult)
qed

section \<open>Properties of the dashboard page\<close>

lemma ranges_30d:
  "dateRanges now ''30d'' =
     \<lparr>startDate = subDays now 29, endDate = now,
      previousStartDate = subDays (subDays now 29) 30, previousEndDate = subDays now 30\<rparr>"
  by (simp add: dateRanges_def)

lemma ranges_month:
  "dateRanges now ''month'' =
     \<lparr>startDate = startOfMonth now, endDate = now,
      previousStartDate = startOfMonth (subMonths now 1),
      previousEndDate = endOfMonth (subMonths now 1)\<rparr>"
  by (simp add: dateRanges_def)

lemma ranges_last_month:
  "dateRanges now ''last_month'' =
     \<lparr>startDate = startOfMonth (subMonths now 1), endDate = endOfMonth (subMonths now 1),
      previousStartDate = startOfMonth (subMonths now 2),
      previousEndDate = endOfMonth (subMonths now 2)\<rparr>"
  by (simp add: dateRanges_def)

lemma ranges_default:
  "period \<noteq> ''30d'' \<Longrightarrow> period \<noteq> ''month'' \<Longrightarrow> period \<noteq> ''last_month'' \<Longrightarrow>
   dateRanges now period =
     \<lparr>startDate = subDays now 6, endDate = now,
      previousStartDate = subDays (subDays now 6) 7, previousEndDate = subDays now 7\<rparr>"
  by (simp add: dateRanges_def)

lemma valid_now0: "valid_date now0"
  by (simp add: now0_def valid_date_def daysInMonth_def msPerDay_def)

lemma valid_subMonths_ends:
  assumes "valid_date now"
  shows "valid_date (startOfMonth (subMonths now n))" "valid_date (endOfMonth (subMonths now n))"
  using subMonths_month[of now n] by (simp_all add: valid_startOfMonth valid_endOfMonth)

lemma dateRanges_valid:
  assumes "valid_date now"
  shows "valid_date (startDate (dateRanges now period)) \<and>
         valid_date (endDate (dateRanges now period)) \<and>
         dayNumber (startDate (dateRanges now period)) \<le> dayNumber (endDate (dateRanges now period))"
proof -
  note s = subDays_props[OF assms]
  note m = valid_subMonths_ends[OF assms]
  have a: "valid_date (startOfMonth now)"
    by (rule valid_startOfMonth[OF valid_date_month[OF assms]])
  have b: "dayNumber (startOfMonth now) \<le> dayNumber now"
    using assms by (simp add: dayNumber_startOfMonth valid_date_def)
  have c: "dayNumber (startOfMonth (subMonths now 1)) \<le> dayNumber (endOfMonth (subMonths now 1))"
    using daysInMonth_pos(2)[of "fullYear (subMonths now 1)" "month (subMonths now 1)"]
    by (simp add: dayNumber_endOfMonth)
  consider (d30) "period = ''30d''" | (mo) "period = ''month''" | (lm) "period = ''last_month''"
    | (other) "period \<noteq> ''30d''" "period \<noteq> ''month''" "period \<noteq> ''last_month''"
    by blast
  then show ?thesis
  proof cases
    case d30
    with assms s[of 29] show ?thesis by (simp add: ranges_30d)
  next
    case mo
    with assms a b show ?thesis by (simp add: ranges_month)
  next
    case lm
    with m[of 1] c show ?thesis by (simp add: ranges_last_month)
  next
    case other
    with assms s[of 6] ranges_default[OF other, of now] show ?thesis by simp
  qed
qed

lemma chartData_values:
  assumes "valid_date s" "valid_date e"
  shows "map point_value (chartData l response s e) =
           daily_counts l (case response_data response of None \<Rightarrow> [] | Some rows \<Rightarrow> rows)
             (dayNumber s) (dayNumber e) \<and>
         map point_name (chartData l response s e) = map (format_EEE_dd l) (eachDayOfInterval s e)"
proof -
  from eachDayOfInterval_days[OF assms]
  have d: "map dayNumber (eachDayOfInterval s e) = [dayNumber s..dayNumber e]" by simp
  have "map point_value (chartData l response s e) =
      map (\<lambda>n. length (filter (\<lambda>item. case parseISO l (created_at item) of
                                         None \<Rightarrow> False
                                       | Some t \<Rightarrow> dayNumber t = n)
                          (case response_data response of None \<Rightarrow> [] | Some rows \<Rightarrow> rows)))
          (map dayNumber (eachDayOfInterval s e))"
    by (simp add: chartData_def isSameDay_iff comp_def cong: option.case_cong)
  then show ?thesis
    by (simp add: d daily_counts_def chartData_def comp_def)
qed

lemma daily_counts_Nil: "daily_counts l [] a b = replicate (length [a..b]) 0"
  by (simp add: daily_counts_def map_replicate_const)

lemma getCountOrZero_nonneg: "0 \<le> fst (getCountOrZero response label)"
  by (cases response) (simp_all add: getCountOrZero_def split: option.splits)

lemma counted_nonneg [simp]: "0 \<le> counted supabase table filters label"
  by (simp add: counted_def getCountOrZero_nonneg)

lemma charts_eq:
  "userGrowthData (fst (dashboardMetrics_of l supabase now period)) =
     chartData l
       (run supabase (rows_query ''profiles''
          (window l (startOfPeriod now period) (endOfPeriod now period))))
       (startDate (dateRanges now period)) (endDate (dateRanges now period))"
  "analysisActivityData (fst (dashboardMetrics_of l supabase now period)) =
     chartData l
       (run supabase (rows_query ''analyses''
          (window l (startOfPeriod now period) (endOfPeriod now period))))
       (startDate (dateRanges now period)) (endDate (dateRanges now period))"
  "waitlistGrowthData (fst (dashboardMetrics_of l supabase now period)) =
     chartData l
       (run supabase (rows_query ''waitlist''
          (window l (startOfPeriod now period) (endOfPeriod now period))))
       (startDate (dateRanges now period)) (endDate (dateRanges now period))"
  by (simp_all add: dashboardMetrics_of_def Let_def split_def)

lemma getCountOrZero_degrade:
  "fst (getCountOrZero (degrade response) label) = fst (getCountOrZero response label)"
  by (cases response) (simp_all add: getCountOrZero_def degrade_def split: option.splits)

lemma chartData_degrade: "chartData l (degrade response) s e = chartData l response s e"
  by (cases response) (simp_all add: chartData_def degrade_def split: option.splits)

lemma dashboardMetrics_degrade:
  "fst (dashboardMetrics_of l (supabase\<lparr>run := \<lambda>q. degrade (run supabase q)\<rparr>) now period) =
   fst (dashboardMetrics_of l supabase now period)"
  by (simp add: dashboardMetrics_of_def Let_def split_def getCountOrZero_degrade chartData_degrade)

lemma dashboardMetrics_run_messages:
  "dashboardMetrics_of l (supabase\<lparr>run_messages := f\<rparr>) now period =
   dashboardMetrics_of l supabase now period"
  by (simp add: dashboardMetrics_of_def)

lemma getServerSideProps_Admin:
  "getServerSideProps l (Admin session) supabase now nowForMessages period_param =
     (case run_messages supabase messages_query of
        Failure error \<Rightarrow>
          (Props \<lparr>initialSession = session, messageStats = baseStats (toISOString l now),
                  dashboardMetrics = fst (dashboardMetrics_of l supabase now (period_of period_param)),
                  selectedPeriod = None\<rparr>,
           snd (dashboardMetrics_of l supabase now (period_of period_param)) @ [MessagesError error])
      | Success c d \<Rightarrow>
          (Props \<lparr>initialSession = session,
                  messageStats =
                    stats l (case d of None \<Rightarrow> [] | Some ms \<Rightarrow> ms) nowForMessages (toISOString l now),
                  dashboardMetrics = fst (dashboardMetrics_of l supabase now (period_of period_param)),
                  selectedPeriod = Some (period_of period_param)\<rparr>,
           snd (dashboardMetrics_of l supabase now (period_of period_param))))"
  by (cases "run_messages supabase messages_query")
     (simp_all add: getServerSideProps_def Let_def split_def)

text \<open>
  Claim C10. When the query of the messages fails, the page returns props with the
  statistics of the messages all zero or null, the metrics as computed, and no
  \<open>selectedPeriod\<close>; when it succeeds the props hold \<open>selectedPeriod\<close>. The metrics do not
  depend on the query of the messages.
\<close>

theorem messages_error_props:
  fixes supabase :: "'e supabaseAdmin"
  shows "(\<forall>e. run_messages supabase messages_query = Failure e \<longrightarrow>
            getServerSideProps l (Admin session) supabase now nowForMessages period_param =
              (Props \<lparr>initialSession = session,
                      messageStats =
                        \<lparr>ms_total = 0, ms_active = 0, ms_targeted = 0, ms_upcoming = 0,
                         ms_lastMessageTitle = None, ms_lastMessageUpdatedAt = None,
                         ms_generatedAt = toISOString l now\<rparr>,
                      dashboardMetrics =
                        fst (dashboardMetrics_of l supabase now (period_of period_param)),
                      selectedPeriod = None\<rparr>,
               snd (dashboardMetrics_of l supabase now (period_of period_param)) @ [MessagesError e])) \<and>
         (\<forall>c d. run_messages supabase messages_query = Success c d \<longrightarrow>
            (\<exists>p lg. getServerSideProps l (Admin session) supabase now nowForMessages period_param =
                      (Props p, lg) \<and>
                    selectedPeriod p = Some (period_of period_param) \<and>
                    dashboardMetrics p =
                      fst (dashboardMetrics_of l supabase now (period_of period_param)))) \<and>
         (\<forall>f. dashboardMetrics_of l (supabase\<lparr>run_messages := f\<rparr>) now (period_of period_param) =
              dashboardMetrics_of l supabase now (period_of period_param))"
  by (simp add: getServerSideProps_Admin baseStats_def dashboardMetrics_run_messages)

theorem messages_error_props_witness:
  "getServerSideProps sample_lib (Admin ()) sample_supabase now0 now0 (Single ''30d'') =
     (Props \<lparr>initialSession = (),
             messageStats =
               \<lparr>ms_total = 0, ms_active = 0, ms_targeted = 0, ms_upcoming = 0,
                ms_lastMessageTitle = None, ms_lastMessageUpdatedAt = None,
                ms_generatedAt = []\<rparr>,
             dashboardMetrics = fst (dashboardMetrics_of sample_lib sample_supabase now0 ''30d''),
             selectedPeriod = None\<rparr>,
      snd (dashboardMetrics_of sample_lib sample_supabase now0 ''30d'') @
      [MessagesError ''timeout'']) \<and>
   (\<exists>p lg. getServerSideProps sample_lib (Admin ())
              (sample_supabase\<lparr>run_messages := \<lambda>q. Success None (Some [])\<rparr>) now0 now0
              (Single ''30d'') = (Props p, lg) \<and>
           selectedPeriod p = Some ''30d'')"
proof -
  have f: "run_messages sample_supabase messages_query = Failure ''timeout''"
    by (simp add: sample_supabase_def)
  have s: "run_messages (sample_supabase\<lparr>run_messages := \<lambda>q. Success None (Some [])\<rparr>)
             messages_query = Success None (Some [])"
    by simp
  have i: "toISOString sample_lib now0 = []" "period_of (Single ''30d'') = ''30d''"
    by (simp_all add: sample_lib_def period_of_def)
  from messages_error_props[of sample_supabase sample_lib "()" now0 now0 "Single ''30d''"] f
  have 1: "getServerSideProps sample_lib (Admin ()) sample_supabase now0 now0 (Single ''30d'') =
     (Props \<lparr>initialSession = (),
             messageStats =
               \<lparr>ms_total = 0, ms_active = 0, ms_targeted = 0, ms_upcoming = 0,
                ms_lastMessageTitle = None, ms_lastMessageUpdatedAt = None,
                ms_generatedAt = []\<rparr>,
             dashboardMetrics = fst (dashboardMetrics_of sample_lib sample_supabase now0 ''30d''),
             selectedPeriod = None\<rparr>,
      snd (dashboardMetrics_of sample_lib sample_supabase now0 ''30d'') @
      [MessagesError ''timeout''])"
    unfolding i by blast
  from messages_error_props[of "sample_supabase\<lparr>run_messages := \<lambda>q. Success None (Some [])\<rparr>"
      sample_lib "()" now0 now0 "Single ''30d''"] s
  have 2: "\<exists>p lg. getServerSideProps sample_lib (Admin ())
              (sample_supabase\<lparr>run_messages := \<lambda>q. Success None (Some [])\<rparr>) now0 now0
              (Single ''30d'') = (Props p, lg) \<and>
           selectedPeriod p = Some ''30d''"
    unfolding i by blast
  from 1 2 show ?thesis by (rule conjI)
qed

lemma series_values:
  assumes "valid_date now"
  shows "map point_value
           (chartData l response (startDate (dateRanges now period)) (endDate (dateRanges now period))) =
         daily_counts l (fetched response)
           (dayNumber (startDate (dateRanges now period))) (dayNumber (endDate (dateRanges now period)))"
  using dateRanges_valid[OF assms, of period] chartData_values[of _ _ l response]
  by (simp add: fetched_def)

lemma series_names:
  assumes "valid_date now"
  shows "map point_name
           (chartData l response (startDate (dateRanges now period)) (endDate (dateRanges now period))) =
         map (format_EEE_dd l)
           (eachDayOfInterval (startDate (dateRanges now period)) (endDate (dateRanges now period)))"
  using dateRanges_valid[OF assms, of period] chartData_values[of _ _ l response]
  by simp

lemma fetched_Failure: "fetched (Failure e) = []"
  by (simp add: fetched_def)


lemma dayNumber_now0: "dayNumber now0 = 20760"
  by (simp add: now0_def dayNumber_def dayFromYear_def daysBeforeMonth_def isLeapYear_def)

lemma sample_range:
  "dayNumber (startDate (dateRanges now0 ''7d'')) = 20754"
  "dayNumber (endDate (dateRanges now0 ''7d'')) = 20760"
  using subDays_props[OF valid_now0, of 6]
  by (simp_all add: ranges_default dayNumber_now0)

lemma sample_rows:
  "fetched (run sample_supabase (rows_query ''profiles'' f)) =
     [\<lparr>created_at = ''2026-11-02T10:00:00Z''\<rparr>]"
  "fetched (run sample_supabase (rows_query ''analyses'' f)) = []"
  by (simp_all add: fetched_def sample_supabase_def rows_query_def)

lemma sample_row_day:
  "parseISO sample_lib ''2026-11-02T10:00:00Z'' =
     Some \<lparr>fullYear = 2026, month = 11, dayOfMonth = 2, msOfDay = 36000000\<rparr>"
  "dayNumber \<lparr>fullYear = 2026, month = 11, dayOfMonth = 2, msOfDay = 36000000\<rparr> = 20759"
  by (simp_all add: sample_lib_def dayNumber_def dayFromYear_def daysBeforeMonth_def isLeapYear_def)

lemma sample_days: "[20754..20760::int] = [20754, 20755, 20756, 20757, 20758, 20759, 20760]"
  by (simp add: upto_rec1)

lemma sample_daily_counts:
  "daily_counts sample_lib [\<lparr>created_at = ''2026-11-02T10:00:00Z''\<rparr>] 20754 20760 =
     [0, 0, 0, 0, 0, 1, 0]"
  "daily_counts sample_lib [] 20754 20760 = [0, 0, 0, 0, 0, 0, 0]"
  by (simp_all add: daily_counts_def sample_days sample_row_day)


lemma metric_of_eq:
  assumes "0 \<le> p"
  shows "\<lparr>current = c, previous = Some p, delta = c - p,
          deltaPercentage =
            (if p > 0 then Some (fmul (fdiv (real_of_int (c - p)) (real_of_int p)) 100)
             else None)\<rparr> = metric_of c p"
  using assms by (auto simp: metric_of_def)

lemma totalUsers_eq:
  "totalUsers (fst (dashboardMetrics_of l supabase now period)) =
     metric_of (counted supabase ''profiles'' [] ''profiles (total)'')
       (max (counted supabase ''profiles'' [] ''profiles (total)'' -
             counted supabase ''profiles''
               (window l (startOfPeriod now period) (endOfPeriod now period))
               ''profiles (periode)'') 0)"
proof -
  let ?t = "counted supabase ''profiles'' [] ''profiles (total)''"
  let ?u = "counted supabase ''profiles''
              (window l (startOfPeriod now period) (endOfPeriod now period)) ''profiles (periode)''"
  have "totalUsers (fst (dashboardMetrics_of l supabase now period)) =
      \<lparr>current = ?t, previous = Some (max (?t - ?u) 0), delta = ?t - max (?t - ?u) 0,
       deltaPercentage =
         (if max (?t - ?u) 0 > 0
          then Some (fmul (fdiv (real_of_int (?t - max (?t - ?u) 0))
                             (real_of_int (max (?t - ?u) 0))) 100)
          else None)\<rparr>"
    by (simp add: dashboardMetrics_of_def counted_def Let_def split_def)
  also have "\<dots> = metric_of ?t (max (?t - ?u) 0)"
    by (rule metric_of_eq) simp
  finally show ?thesis .
qed

lemma weeklySignups_eq:
  "weeklySignups (fst (dashboardMetrics_of l supabase now period)) =
     metric_of
       (counted supabase ''profiles''
          (window l (startOfPeriod now period) (endOfPeriod now period)) ''profiles (periode)'')
       (counted supabase ''profiles''
          (window l (startOfPreviousPeriod now period) (endOfPreviousPeriod now period))
          ''profiles (periode precedente)'')"
proof -
  let ?c = "counted supabase ''profiles''
              (window l (startOfPeriod now period) (endOfPeriod now period)) ''profiles (periode)''"
  let ?p = "counted supabase ''profiles''
              (window l (startOfPreviousPeriod now period) (endOfPreviousPeriod now period))
              ''profiles (periode precedente)''"
  have "weeklySignups (fst (dashboardMetrics_of l supabase now period)) =
      \<lparr>current = ?c, previous = Some ?p, delta = ?c - ?p,
       deltaPercentage =
         (if ?p > 0 then Some (fmul (fdiv (real_of_int (?c - ?p)) (real_of_int ?p)) 100)
          else None)\<rparr>"
    by (simp add: dashboardMetrics_of_def counted_def Let_def split_def)
  also have "\<dots> = metric_of ?c ?p"
    by (rule metric_of_eq) simp
  finally show ?thesis .
qed

lemma analyses_eq:
  "analyses (fst (dashboardMetrics_of l supabase now period)) =
     metric_of
       (counted supabase ''analyses''
          (window l (startOfPeriod now period) (endOfPeriod now period)) ''analyses (periode)'')
       (counted supabase ''analyses''
          (window l (startOfPreviousPeriod now period) (endOfPreviousPeriod now period))
          ''analyses (periode precedente)'')"
proof -
  let ?c = "counted supabase ''analyses''
              (window l (startOfPeriod now period) (endOfPeriod now period)) ''analyses (periode)''"
  let ?p = "counted supabase ''analyses''
              (window l (startOfPreviousPeriod now period) (endOfPreviousPeriod now period))
              ''analyses (periode precedente)''"
  have "analyses (fst (dashboardMetrics_of l supabase now period)) =
      \<lparr>current = ?c, previous = Some ?p, delta = ?c - ?p,
       deltaPercentage =
         (if ?p > 0 then Some (fmul (fdiv (real_of_int (?c - ?p)) (real_of_int ?p)) 100)
          else None)\<rparr>"
    by (simp add: dashboardMetrics_of_def counted_def Let_def split_def)
  also have "\<dots> = metric_of ?c ?p"
    by (rule metric_of_eq) simp
  finally show ?thesis .
qed

lemma waitlist_eq:
  "waitlist (fst (dashboardMetrics_of l supabase now period)) =
     metric_of
       (counted supabase ''waitlist''
          (window l (startOfPeriod now period) (endOfPeriod now period)) ''waitlist (periode)'')
       (counted supabase ''waitlist''
          (window l (startOfPreviousPeriod now period) (endOfPreviousPeriod now period))
          ''waitlist (periode precedente)'')"
proof -
  let ?c = "counted supabase ''waitlist''
              (window l (startOfPeriod now period) (endOfPeriod now period)) ''waitlist (periode)''"
  let ?p = "counted supabase ''waitlist''
              (window l (startOfPreviousPeriod now period) (endOfPreviousPeriod now period))
              ''waitlist (periode precedente)''"
  have "waitlist (fst (dashboardMetrics_of l supabase now period)) =
      \<lparr>current = ?c, previous = Some ?p, delta = ?c - ?p,
       deltaPercentage =
         (if ?p > 0 then Some (fmul (fdiv (real_of_int (?c - ?p)) (real_of_int ?p)) 100)
          else None)\<rparr>"
    by (simp add: dashboardMetrics_of_def counted_def Let_def split_def)
  also have "\<dots> = metric_of ?c ?p"
    by (rule metric_of_eq) simp
  finally show ?thesis .
qed

lemma consent_eq:
  "consent (fst (dashboardMetrics_of l supabase now period)) =
     (let t = counted supabase ''consent'' [] ''consent (total)'';
          m = counted supabase ''consent'' [Eq ''marketing'' True] ''consent (marketing true)'';
          i = counted supabase ''consent'' [Eq ''improvement'' True] ''consent (improvement true)''
      in \<lparr>marketing =
            \<lparr>optedIn = m, total = t,
             rate = (if t > 0 then fmul (fdiv (real_of_int m) (real_of_int t)) 100 else 0)\<rparr>,
          improvement =
            \<lparr>optedIn = i, total = t,
             rate = (if t > 0 then fmul (fdiv (real_of_int i) (real_of_int t)) 100 else 0)\<rparr>\<rparr>)"
  by (simp add: dashboardMetrics_of_def counted_def Let_def split_def)

lemma counted_count_of:
  "counted supabase table filters label = count_of (run supabase (count_query table filters))"
  by (cases "run supabase (count_query table filters)")
     (simp_all add: counted_def getCountOrZero_def count_of_def split: option.splits)

lemma snd_getCountOrZero:
  "snd (getCountOrZero response label) =
     (case response of Failure e \<Rightarrow> [CountError label e] | Success c d \<Rightarrow> [])"
  by (cases response) (simp_all add: getCountOrZero_def)

lemma log_eq:
  "snd (dashboardMetrics_of l supabase now period) =
     count_errors supabase (count_queries l now period)"
  by (simp add: dashboardMetrics_of_def Let_def split_def count_errors_def count_queries_def
        snd_getCountOrZero cong: query_response.case_cong)

lemma valid_endOfDay: "valid_date d \<Longrightarrow> valid_date (endOfDay d)"
  by (simp add: valid_date_def endOfDay_def msPerDay_def)

lemma endOfDay_eq: "endOfDay d = d\<lparr>msOfDay := 86399999\<rparr>"
  by (simp add: endOfDay_def msPerDay_def)

lemma startOfMonth_first:
  fixes d :: date
  shows "startOfDay (startOfMonth d) = first_of_month (fullYear d, month d)"
  by (cases d) (simp add: startOfDay_def startOfMonth_def first_of_month_def)

lemma endOfMonth_last:
  fixes d :: date
  shows "endOfDay (endOfMonth d) = last_of_month (fullYear d, month d)"
  by (cases d) (simp add: endOfDay_def endOfMonth_def last_of_month_def msPerDay_def)

lemma month_before_index:
  assumes "1 \<le> m" "m \<le> 12"
  shows "1 \<le> snd (month_before (y, m)) \<and> snd (month_before (y, m)) \<le> 12 \<and>
         fst (month_before (y, m)) * 12 + int (snd (month_before (y, m))) = y * 12 + int m - 1"
  using assms by (auto simp: month_before_def)

lemma index_unique:
  fixes y y' :: int and m m' :: nat
  assumes "1 \<le> m" "m \<le> 12" "1 \<le> m'" "m' \<le> 12" "y * 12 + int m = y' * 12 + int m'"
  shows "y = y' \<and> m = m'"
  using assms by arith

lemma subMonths_1:
  assumes "valid_month d"
  shows "(fullYear (subMonths d 1), month (subMonths d 1)) = month_before (fullYear d, month d)"
proof -
  from assms have m: "1 \<le> month d" "month d \<le> 12" by (simp_all add: valid_month_def)
  from subMonths_month[of d 1] assms
  have s: "1 \<le> month (subMonths d 1)" "month (subMonths d 1) \<le> 12"
    "fullYear (subMonths d 1) * 12 + int (month (subMonths d 1)) = fullYear d * 12 + int (month d) - 1"
    by (simp_all add: valid_month_def monthIndex_def)
  from month_before_index[OF m, of "fullYear d"] s
  have "fullYear (subMonths d 1) = fst (month_before (fullYear d, month d)) \<and>
        month (subMonths d 1) = snd (month_before (fullYear d, month d))"
    by (intro index_unique) simp_all
  then show ?thesis by (simp add: prod_eq_iff)
qed

lemma subMonths_2:
  assumes "valid_month d"
  shows "(fullYear (subMonths d 2), month (subMonths d 2)) =
           month_before (month_before (fullYear d, month d))"
proof -
  from assms have m: "1 \<le> month d" "month d \<le> 12" by (simp_all add: valid_month_def)
  let ?b = "month_before (fullYear d, month d)"
  from subMonths_month[of d 2] assms
  have s: "1 \<le> month (subMonths d 2)" "month (subMonths d 2) \<le> 12"
    "fullYear (subMonths d 2) * 12 + int (month (subMonths d 2)) = fullYear d * 12 + int (month d) - 2"
    by (simp_all add: valid_month_def monthIndex_def)
  note b = month_before_index[OF m, of "fullYear d"]
  from b have b1: "1 \<le> snd ?b" "snd ?b \<le> 12" by simp_all
  from month_before_index[OF b1, of "fst ?b"] b
  have c: "1 \<le> snd (month_before ?b)" "snd (month_before ?b) \<le> 12"
    "fst (month_before ?b) * 12 + int (snd (month_before ?b)) = fullYear d * 12 + int (month d) - 2"
    by simp_all
  from s c
  have "fullYear (subMonths d 2) = fst (month_before ?b) \<and>
        month (subMonths d 2) = snd (month_before ?b)"
    by (intro index_unique) simp_all
  then show ?thesis by (simp add: prod_eq_iff)
qed

lemma windows_rolling:
  assumes v: "valid_date now"
    and r: "dateRanges now period =
              \<lparr>startDate = subDays now k, endDate = now,
               previousStartDate = subDays (subDays now k) (Suc k),
               previousEndDate = subDays now (Suc k)\<rparr>"
  shows "valid_date (startOfPeriod now period) \<and> valid_date (endOfPeriod now period) \<and>
         valid_date (startOfPreviousPeriod now period) \<and>
         valid_date (endOfPreviousPeriod now period) \<and>
         msOfDay (startOfPeriod now period) = 0 \<and>
         msOfDay (endOfPeriod now period) = 86399999 \<and>
         msOfDay (startOfPreviousPeriod now period) = 0 \<and>
         msOfDay (endOfPreviousPeriod now period) = 86399999 \<and>
         dayNumber (endOfPreviousPeriod now period) + 1 = dayNumber (startOfPeriod now period) \<and>
         endOfPeriod now period = now\<lparr>msOfDay := 86399999\<rparr> \<and>
         window_days (startOfPeriod now period) (endOfPeriod now period) = int (Suc k) \<and>
         window_days (startOfPreviousPeriod now period) (endOfPreviousPeriod now period) =
           int (Suc k)"
proof -
  note a = subDays_props[OF v, of k]
  from a have vk: "valid_date (subDays now k)" by simp
  note b = subDays_props[OF vk, of "Suc k"]
  note c = subDays_props[OF v, of "Suc k"]
  have 1: "valid_date (startOfPeriod now period)"
    using a by (simp add: startOfPeriod_def r valid_startOfDay)
  have 2: "valid_date (endOfPeriod now period)"
    using v by (simp add: endOfPeriod_def r valid_endOfDay)
  have 3: "valid_date (startOfPreviousPeriod now period)"
    using b by (simp add: startOfPreviousPeriod_def r valid_startOfDay)
  have 4: "valid_date (endOfPreviousPeriod now period)"
    using c by (simp add: endOfPreviousPeriod_def r valid_endOfDay)
  have 5: "msOfDay (startOfPeriod now period) = 0"
    "msOfDay (startOfPreviousPeriod now period) = 0"
    by (simp_all add: startOfPeriod_def startOfPreviousPeriod_def startOfDay_def)
  have 6: "msOfDay (endOfPeriod now period) = 86399999"
    "msOfDay (endOfPreviousPeriod now period) = 86399999"
    by (simp_all add: endOfPeriod_def endOfPreviousPeriod_def endOfDay_eq)
  have 7: "dayNumber (startOfPeriod now period) = dayNumber now - int k"
    using a by (simp add: startOfPeriod_def r)
  have 8: "dayNumber (endOfPeriod now period) = dayNumber now"
    by (simp add: endOfPeriod_def r)
  have 9: "dayNumber (startOfPreviousPeriod now period) = dayNumber now - int k - int (Suc k)"
    using a b by (simp add: startOfPreviousPeriod_def r)
  have 10: "dayNumber (endOfPreviousPeriod now period) = dayNumber now - int (Suc k)"
    using c by (simp add: endOfPreviousPeriod_def r)
  have 11: "endOfPeriod now period = now\<lparr>msOfDay := 86399999\<rparr>"
    by (simp add: endOfPeriod_def r endOfDay_eq)
  from 1 2 3 4 5 6 11 show ?thesis
    unfolding window_days_def 7 8 9 10 by simp
qed

lemma windows_months:
  assumes a: "valid_month a" and b: "valid_month b" and i: "monthIndex b = monthIndex a + 1"
  shows "valid_date (startOfDay (startOfMonth b)) \<and> valid_date (endOfDay (endOfMonth b)) \<and>
         valid_date (startOfDay (startOfMonth a)) \<and> valid_date (endOfDay (endOfMonth a)) \<and>
         msOfDay (startOfDay (startOfMonth b)) = 0 \<and>
         msOfDay (endOfDay (endOfMonth b)) = 86399999 \<and>
         msOfDay (startOfDay (startOfMonth a)) = 0 \<and>
         msOfDay (endOfDay (endOfMonth a)) = 86399999 \<and>
         dayNumber (endOfDay (endOfMonth a)) + 1 = dayNumber (startOfDay (startOfMonth b))"
proof -
  have "msOfDay (startOfDay (startOfMonth b)) = 0" "msOfDay (startOfDay (startOfMonth a)) = 0"
    by (simp_all add: startOfDay_def)
  moreover have "msOfDay (endOfDay (endOfMonth b)) = 86399999"
    "msOfDay (endOfDay (endOfMonth a)) = 86399999"
    by (simp_all add: endOfDay_eq)
  ultimately show ?thesis
    using consecutive_months[OF a b i] valid_startOfMonth[OF a] valid_startOfMonth[OF b]
      valid_endOfMonth[OF a] valid_endOfMonth[OF b]
    by (simp add: valid_startOfDay valid_endOfDay)
qed

lemma windows_month:
  assumes v: "valid_date now"
  shows "valid_date (startOfPeriod now ''month'') \<and> valid_date (endOfPeriod now ''month'') \<and>
         valid_date (startOfPreviousPeriod now ''month'') \<and>
         valid_date (endOfPreviousPeriod now ''month'') \<and>
         msOfDay (startOfPeriod now ''month'') = 0 \<and>
         msOfDay (endOfPeriod now ''month'') = 86399999 \<and>
         msOfDay (startOfPreviousPeriod now ''month'') = 0 \<and>
         msOfDay (endOfPreviousPeriod now ''month'') = 86399999 \<and>
         dayNumber (endOfPreviousPeriod now ''month'') + 1 =
           dayNumber (startOfPeriod now ''month'') \<and>
         startOfPeriod now ''month'' = first_of_month (fullYear now, month now) \<and>
         endOfPeriod now ''month'' = now\<lparr>msOfDay := 86399999\<rparr> \<and>
         startOfPreviousPeriod now ''month'' =
           first_of_month (month_before (fullYear now, month now)) \<and>
         endOfPreviousPeriod now ''month'' =
           last_of_month (month_before (fullYear now, month now))"
proof -
  have m: "valid_month now" by (rule valid_date_month[OF v])
  from subMonths_month[of now 1] m
  have s: "valid_month (subMonths now 1)" "monthIndex now = monthIndex (subMonths now 1) + 1"
    by simp_all
  note w = windows_months[OF s(1) m s(2)]
  have e: "endOfPeriod now ''month'' = now\<lparr>msOfDay := 86399999\<rparr>"
    by (simp add: endOfPeriod_def ranges_month endOfDay_eq)
  have ve: "valid_date (endOfPeriod now ''month'')"
    using v by (simp add: endOfPeriod_def ranges_month valid_endOfDay)
  have p: "startOfPreviousPeriod now ''month'' =
             first_of_month (month_before (fullYear now, month now))"
    "endOfPreviousPeriod now ''month'' = last_of_month (month_before (fullYear now, month now))"
    by (simp_all add: startOfPreviousPeriod_def endOfPreviousPeriod_def ranges_month
          startOfMonth_first endOfMonth_last subMonths_1[OF m, unfolded One_nat_def])
  have c: "startOfPeriod now ''month'' = first_of_month (fullYear now, month now)"
    by (simp add: startOfPeriod_def ranges_month startOfMonth_first)
  have u: "startOfPeriod now ''month'' = startOfDay (startOfMonth now)"
    "startOfPreviousPeriod now ''month'' = startOfDay (startOfMonth (subMonths now 1))"
    "endOfPreviousPeriod now ''month'' = endOfDay (endOfMonth (subMonths now 1))"
    by (simp_all add: startOfPeriod_def startOfPreviousPeriod_def endOfPreviousPeriod_def
          ranges_month)
  have x: "msOfDay (endOfPeriod now ''month'') = 86399999" by (simp add: e)
  from w ve x show ?thesis
    unfolding u[symmetric] by (simp add: c e p)
qed

lemma windows_last_month:
  assumes v: "valid_date now"
  shows "valid_date (startOfPeriod now ''last_month'') \<and>
         valid_date (endOfPeriod now ''last_month'') \<and>
         valid_date (startOfPreviousPeriod now ''last_month'') \<and>
         valid_date (endOfPreviousPeriod now ''last_month'') \<and>
         msOfDay (startOfPeriod now ''last_month'') = 0 \<and>
         msOfDay (endOfPeriod now ''last_month'') = 86399999 \<and>
         msOfDay (startOfPreviousPeriod now ''last_month'') = 0 \<and>
         msOfDay (endOfPreviousPeriod now ''last_month'') = 86399999 \<and>
         dayNumber (endOfPreviousPeriod now ''last_month'') + 1 =
           dayNumber (startOfPeriod now ''last_month'') \<and>
         startOfPeriod now ''last_month'' =
           first_of_month (month_before (fullYear now, month now)) \<and>
         endOfPeriod now ''last_month'' =
           last_of_month (month_before (fullYear now, month now)) \<and>
         startOfPreviousPeriod now ''last_month'' =
           first_of_month (month_before (month_before (fullYear now, month now))) \<and>
         endOfPreviousPeriod now ''last_month'' =
           last_of_month (month_before (month_before (fullYear now, month now)))"
proof -
  have m: "valid_month now" by (rule valid_date_month[OF v])
  from subMonths_month[of now 1] subMonths_month[of now 2] m
  have s: "valid_month (subMonths now 1)" "valid_month (subMonths now 2)"
    "monthIndex (subMonths now 1) = monthIndex (subMonths now 2) + 1"
    by simp_all
  note w = windows_months[OF s(2) s(1) s(3)]
  have p: "startOfPeriod now ''last_month'' =
             first_of_month (month_before (fullYear now, month now))"
    "endOfPeriod now ''last_month'' = last_of_month (month_before (fullYear now, month now))"
    "startOfPreviousPeriod now ''last_month'' =
       first_of_month (month_before (month_before (fullYear now, month now)))"
    "endOfPreviousPeriod now ''last_month'' =
       last_of_month (month_before (month_before (fullYear now, month now)))"
    by (simp_all add: startOfPeriod_def endOfPeriod_def startOfPreviousPeriod_def
          endOfPreviousPeriod_def ranges_last_month startOfMonth_first endOfMonth_last
          subMonths_1[OF m, unfolded One_nat_def] subMonths_2[OF m])
  have u: "startOfPeriod now ''last_month'' = startOfDay (startOfMonth (subMonths now 1))"
    "endOfPeriod now ''last_month'' = endOfDay (endOfMonth (subMonths now 1))"
    "startOfPreviousPeriod now ''last_month'' = startOfDay (startOfMonth (subMonths now 2))"
    "endOfPreviousPeriod now ''last_month'' = endOfDay (endOfMonth (subMonths now 2))"
    by (simp_all add: startOfPeriod_def endOfPeriod_def startOfPreviousPeriod_def
          endOfPreviousPeriod_def ranges_last_month)
  from w show ?thesis
    unfolding u[symmetric] by (simp add: p)
qed

lemma window_metrics:
  "weeklySignups (fst (dashboardMetrics_of l supabase now period)) =
     metric_of
       (count_of (run supabase (count_query ''profiles''
          [Gte ''created_at'' (toISOString l (startOfPeriod now period)),
           Lt ''created_at'' (toISOString l (endOfPeriod now period))])))
       (count_of (run supabase (count_query ''profiles''
          [Gte ''created_at'' (toISOString l (startOfPreviousPeriod now period)),
           Lt ''created_at'' (toISOString l (endOfPreviousPeriod now period))])))"
  "analyses (fst (dashboardMetrics_of l supabase now period)) =
     metric_of
       (count_of (run supabase (count_query ''analyses''
          [Gte ''created_at'' (toISOString l (startOfPeriod now period)),
           Lt ''created_at'' (toISOString l (endOfPeriod now period))])))
       (count_of (run supabase (count_query ''analyses''
          [Gte ''created_at'' (toISOString l (startOfPreviousPeriod now period)),
           Lt ''created_at'' (toISOString l (endOfPreviousPeriod now period))])))"
  "waitlist (fst (dashboardMetrics_of l supabase now period)) =
     metric_of
       (count_of (run supabase (count_query ''waitlist''
          [Gte ''created_at'' (toISOString l (startOfPeriod now period)),
           Lt ''created_at'' (toISOString l (endOfPeriod now period))])))
       (count_of (run supabase (count_query ''waitlist''
          [Gte ''created_at'' (toISOString l (startOfPreviousPeriod now period)),
           Lt ''created_at'' (toISOString l (endOfPreviousPeriod now period))])))"
  unfolding weeklySignups_eq analyses_eq waitlist_eq counted_count_of window_def by (rule refl)+

text \<open>
  Claim C1, as amended. The bounds of both windows are days of the calendar, the starts at
  00:00:00.000 and the ends at 23:59:59.999, and the comparison window ends on the day
  before the day the current window starts on. For \<open>7d\<close>, \<open>30d\<close> and every value that is
  neither \<open>month\<close> nor \<open>last_month\<close> the current window ends today and both windows span 7
  or 30 calendar days. For \<open>month\<close> the current window runs from the first day of the
  current month to today and the comparison window is the calendar month before; for
  \<open>last_month\<close> the current window is the calendar month before the current one and the
  comparison window the month before that. The period signups, the analyses and the
  waitlist metric compare the count of the rows with \<open>created_at\<close> from the start
  (included) to the end (excluded) of the current window with the same count for the
  comparison window.
\<close>
theorem comparison_window:
  assumes "valid_date now"
  shows "valid_date (startOfPeriod now period) \<and> valid_date (endOfPeriod now period) \<and>
         valid_date (startOfPreviousPeriod now period) \<and>
         valid_date (endOfPreviousPeriod now period) \<and>
         msOfDay (startOfPeriod now period) = 0 \<and>
         msOfDay (endOfPeriod now period) = 86399999 \<and>
         msOfDay (startOfPreviousPeriod now period) = 0 \<and>
         msOfDay (endOfPreviousPeriod now period) = 86399999 \<and>
         dayNumber (endOfPreviousPeriod now period) + 1 = dayNumber (startOfPeriod now period) \<and>
         (period \<noteq> ''month'' \<and> period \<noteq> ''last_month'' \<longrightarrow>
            endOfPeriod now period = now\<lparr>msOfDay := 86399999\<rparr> \<and>
            window_days (startOfPeriod now period) (endOfPeriod now period) =
              (if period = ''30d'' then 30 else 7) \<and>
            window_days (startOfPreviousPeriod now period) (endOfPreviousPeriod now period) =
              (if period = ''30d'' then 30 else 7)) \<and>
         (period = ''month'' \<longrightarrow>
            startOfPeriod now period = first_of_month (fullYear now, month now) \<and>
            endOfPeriod now period = now\<lparr>msOfDay := 86399999\<rparr> \<and>
            startOfPreviousPeriod now period =
              first_of_month (month_before (fullYear now, month now)) \<and>
            endOfPreviousPeriod now period =
              last_of_month (month_before (fullYear now, month now))) \<and>
         (period = ''last_month'' \<longrightarrow>
            startOfPeriod now period = first_of_month (month_before (fullYear now, month now)) \<and>
            endOfPeriod now period = last_of_month (month_before (fullYear now, month now)) \<and>
            startOfPreviousPeriod now period =
              first_of_month (month_before (month_before (fullYear now, month now))) \<and>
            endOfPreviousPeriod now period =
              last_of_month (month_before (month_before (fullYear now, month now)))) \<and>
         weeklySignups (fst (dashboardMetrics_of l supabase now period)) =
           metric_of
             (count_of (run supabase (count_query ''profiles''
                [Gte ''created_at'' (toISOString l (startOfPeriod now period)),
                 Lt ''created_at'' (toISOString l (endOfPeriod now period))])))
             (count_of (run supabase (count_query ''profiles''
                [Gte ''created_at'' (toISOString l (startOfPreviousPeriod now period)),
                 Lt ''created_at'' (toISOString l (endOfPreviousPeriod now period))]))) \<and>
         analyses (fst (dashboardMetrics_of l supabase now period)) =
           metric_of
             (count_of (run supabase (count_query ''analyses''
                [Gte ''created_at'' (toISOString l (startOfPeriod now period)),
                 Lt ''created_at'' (toISOString l (endOfPeriod now period))])))
             (count_of (run supabase (count_query ''analyses''
                [Gte ''created_at'' (toISOString l (startOfPreviousPeriod now period)),
                 Lt ''created_at'' (toISOString l (endOfPreviousPeriod now period))]))) \<and>
         waitlist (fst (dashboardMetrics_of l supabase now period)) =
           metric_of
             (count_of (run supabase (count_query ''waitlist''
                [Gte ''created_at'' (toISOString l (startOfPeriod now period)),
                 Lt ''created_at'' (toISOString l (endOfPeriod now period))])))
             (count_of (run supabase (count_query ''waitlist''
                [Gte ''created_at'' (toISOString l (startOfPreviousPeriod now period)),
                 Lt ''created_at'' (toISOString l (endOfPreviousPeriod now period))])))"
proof -
  note q = window_metrics[of l supabase now period]
  consider (d30) "period = ''30d''" | (m) "period = ''month''" | (lm) "period = ''last_month''"
    | (other) "period \<noteq> ''30d''" "period \<noteq> ''month''" "period \<noteq> ''last_month''"
    by blast
  then show ?thesis
  proof cases
    case d30
    have r: "dateRanges now period =
               \<lparr>startDate = subDays now 29, endDate = now,
                previousStartDate = subDays (subDays now 29) (Suc 29),
                previousEndDate = subDays now (Suc 29)\<rparr>"
      unfolding d30 ranges_30d by simp
    from windows_rolling[OF assms r] d30 show ?thesis
      unfolding q by (elim conjE, intro conjI impI) simp_all
  next
    case m
    from windows_month[OF assms] m show ?thesis
      unfolding q by (elim conjE, intro conjI impI) simp_all
  next
    case lm
    from windows_last_month[OF assms] lm show ?thesis
      unfolding q by (elim conjE, intro conjI impI) simp_all
  next
    case other
    have r: "dateRanges now period =
               \<lparr>startDate = subDays now 6, endDate = now,
                previousStartDate = subDays (subDays now 6) (Suc 6),
                previousEndDate = subDays now (Suc 6)\<rparr>"
      unfolding ranges_default[OF other] by simp
    from windows_rolling[OF assms r] other show ?thesis
      unfolding q by (elim conjE, intro conjI impI) simp_all
  qed
qed

lemma windowed_days:
  "dayNumber (startOfPeriod now0 ''7d'') = 20754"
  "dayNumber (endOfPeriod now0 ''7d'') = 20760"
  "dayNumber (startOfPreviousPeriod now0 ''7d'') = 20747"
  "dayNumber (endOfPreviousPeriod now0 ''7d'') = 20753"
proof -
  note a = subDays_props[OF valid_now0, of 6]
  from a have v: "valid_date (subDays now0 6)" by simp
  note b = subDays_props[OF v, of 7]
  note c = subDays_props[OF valid_now0, of 7]
  show "dayNumber (startOfPeriod now0 ''7d'') = 20754"
    using a by (simp add: startOfPeriod_def ranges_default dayNumber_now0)
  show "dayNumber (endOfPeriod now0 ''7d'') = 20760"
    by (simp add: endOfPeriod_def ranges_default dayNumber_now0)
  show "dayNumber (startOfPreviousPeriod now0 ''7d'') = 20747"
    using a b by (simp add: startOfPreviousPeriod_def ranges_default dayNumber_now0)
  show "dayNumber (endOfPreviousPeriod now0 ''7d'') = 20753"
    using c by (simp add: endOfPreviousPeriod_def ranges_default dayNumber_now0)
qed

lemma windowed_decimal:
  "decimal 20754 = ''20754''" "decimal 20760 = ''20760''"
  "decimal 20747 = ''20747''" "decimal 20753 = ''20753''"
  by (simp_all add: decimal.simps digit_char_def)

lemma windowed_iso:
  "toISOString day_lib (startOfPeriod now0 ''7d'') = ''20754''"
  "toISOString day_lib (endOfPeriod now0 ''7d'') = ''20760''"
  "toISOString day_lib (startOfPreviousPeriod now0 ''7d'') = ''20747''"
  "toISOString day_lib (endOfPreviousPeriod now0 ''7d'') = ''20753''"
  by (simp_all add: day_lib_def windowed_days windowed_decimal)

lemma windowed_counts:
  "count_of (run windowed_supabase (count_query ''profiles'' [])) = 40"
  "count_of (run windowed_supabase (count_query ''profiles''
     [Gte ''created_at'' ''20754'', Lt ''created_at'' ''20760''])) = 16"
  "count_of (run windowed_supabase (count_query ''profiles''
     [Gte ''created_at'' ''20747'', Lt ''created_at'' ''20753''])) = 5"
  "count_of (run windowed_supabase (count_query ''consent'' [])) = 20"
  "count_of (run windowed_supabase (count_query ''consent'' [Eq ''marketing'' True])) = 11"
  "count_of (run windowed_supabase (count_query ''consent'' [Eq ''improvement'' True])) = 7"
  "count_of (run windowed_supabase (count_query ''analyses'' f)) = 0"
  "count_of (run windowed_supabase (count_query ''waitlist'' f)) = 0"
  by (simp_all add: windowed_supabase_def count_query_def count_of_def)

theorem comparison_window_witness:
  "valid_date now0 \<and>
   dayNumber (endOfPreviousPeriod now0 ''7d'') + 1 = dayNumber (startOfPeriod now0 ''7d'') \<and>
   window_days (startOfPeriod now0 ''7d'') (endOfPeriod now0 ''7d'') = 7 \<and>
   window_days (startOfPreviousPeriod now0 ''7d'') (endOfPreviousPeriod now0 ''7d'') = 7 \<and>
   current (weeklySignups (fst (dashboardMetrics_of day_lib windowed_supabase now0 ''7d''))) = 16 \<and>
   previous (weeklySignups (fst (dashboardMetrics_of day_lib windowed_supabase now0 ''7d''))) =
     Some 5 \<and>
   delta (weeklySignups (fst (dashboardMetrics_of day_lib windowed_supabase now0 ''7d''))) = 11"
  using comparison_window[OF valid_now0, of "''7d''" day_lib windowed_supabase]
  by (clarsimp simp: valid_now0 windowed_iso windowed_counts metric_of_def)

text \<open>
  Claim C1 as stated fails: on 3 November 2026 the period \<open>month\<close> has a current window
  of three calendar days, from 1 November to 3 November, and a comparison window of
  thirty-one, the whole of October.
\<close>
theorem comparison_window_month_counterexample:
  "startOfPeriod now0 ''month'' =
     \<lparr>fullYear = 2026, month = 11, dayOfMonth = 1, msOfDay = 0\<rparr> \<and>
   endOfPeriod now0 ''month'' =
     \<lparr>fullYear = 2026, month = 11, dayOfMonth = 3, msOfDay = 86399999\<rparr> \<and>
   startOfPreviousPeriod now0 ''month'' =
     \<lparr>fullYear = 2026, month = 10, dayOfMonth = 1, msOfDay = 0\<rparr> \<and>
   endOfPreviousPeriod now0 ''month'' =
     \<lparr>fullYear = 2026, month = 10, dayOfMonth = 31, msOfDay = 86399999\<rparr> \<and>
   window_days (startOfPeriod now0 ''month'') (endOfPeriod now0 ''month'') = 3 \<and>
   window_days (startOfPreviousPeriod now0 ''month'') (endOfPreviousPeriod now0 ''month'') = 31"
proof -
  have b: "startOfPeriod now0 ''month'' =
             \<lparr>fullYear = 2026, month = 11, dayOfMonth = 1, msOfDay = 0\<rparr>"
    "endOfPeriod now0 ''month'' =
       \<lparr>fullYear = 2026, month = 11, dayOfMonth = 3, msOfDay = 86399999\<rparr>"
    "startOfPreviousPeriod now0 ''month'' =
       \<lparr>fullYear = 2026, month = 10, dayOfMonth = 1, msOfDay = 0\<rparr>"
    "endOfPreviousPeriod now0 ''month'' =
       \<lparr>fullYear = 2026, month = 10, dayOfMonth = 31, msOfDay = 86399999\<rparr>"
    by (simp_all add: startOfPeriod_def endOfPeriod_def startOfPreviousPeriod_def
          endOfPreviousPeriod_def ranges_month startOfDay_def endOfDay_def startOfMonth_def
          endOfMonth_def subMonths_def now0_def daysInMonth_def isLeapYear_def msPerDay_def
          Let_def)
  show ?thesis
    unfolding b window_days_def
    by (simp add: dayNumber_def dayFromYear_def daysBeforeMonth_def isLeapYear_def)
qed

lemma count_of_nonneg [simp]: "0 \<le> count_of response"
  by (cases response) (simp_all add: count_of_def split: option.splits)

lemma metrics_counts:
  "totalUsers (fst (dashboardMetrics_of l supabase now period)) =
     metric_of (total_count supabase ''profiles'')
       (max (total_count supabase ''profiles'' - period_count l supabase now period ''profiles'') 0)"
  "weeklySignups (fst (dashboardMetrics_of l supabase now period)) =
     metric_of (period_count l supabase now period ''profiles'')
       (previous_count l supabase now period ''profiles'')"
  "analyses (fst (dashboardMetrics_of l supabase now period)) =
     metric_of (period_count l supabase now period ''analyses'')
       (previous_count l supabase now period ''analyses'')"
  "waitlist (fst (dashboardMetrics_of l supabase now period)) =
     metric_of (period_count l supabase now period ''waitlist'')
       (previous_count l supabase now period ''waitlist'')"
  unfolding totalUsers_eq weeklySignups_eq analyses_eq waitlist_eq counted_count_of
    total_count_def period_count_def previous_count_def
  by (rule refl)+

lemma consent_counts:
  "marketing (consent (fst (dashboardMetrics_of l supabase now period))) =
     \<lparr>optedIn = flag_count supabase ''marketing'', total = total_count supabase ''consent'',
      rate = (if 0 < total_count supabase ''consent''
              then fmul (fdiv (real_of_int (flag_count supabase ''marketing''))
                           (real_of_int (total_count supabase ''consent''))) 100
              else 0)\<rparr>"
  "improvement (consent (fst (dashboardMetrics_of l supabase now period))) =
     \<lparr>optedIn = flag_count supabase ''improvement'', total = total_count supabase ''consent'',
      rate = (if 0 < total_count supabase ''consent''
              then fmul (fdiv (real_of_int (flag_count supabase ''improvement''))
                           (real_of_int (total_count supabase ''consent''))) 100
              else 0)\<rparr>"
  unfolding consent_eq counted_count_of total_count_def flag_count_def
  by (simp_all add: Let_def)

lemma metric_of_percentage:
  assumes "0 \<le> p"
  shows "\<exists>p'. previous (metric_of c p) = Some p' \<and> 0 \<le> p' \<and>
           delta (metric_of c p) = current (metric_of c p) - p' \<and>
           (deltaPercentage (metric_of c p) = None \<longleftrightarrow> p' = 0) \<and>
           (\<forall>x. deltaPercentage (metric_of c p) = Some x \<longrightarrow>
              x = fmul (fdiv (real_of_int (current (metric_of c p) - p')) (real_of_int p')) 100 \<and>
              \<bar>x - real_of_int (current (metric_of c p) - p') / real_of_int p' * 100\<bar> \<le>
                \<bar>real_of_int (current (metric_of c p) - p') / real_of_int p' * 100\<bar> / 2 ^ 51)"
proof (rule exI[of _ p])
  show "previous (metric_of c p) = Some p \<and> 0 \<le> p \<and>
        delta (metric_of c p) = current (metric_of c p) - p \<and>
        (deltaPercentage (metric_of c p) = None \<longleftrightarrow> p = 0) \<and>
        (\<forall>x. deltaPercentage (metric_of c p) = Some x \<longrightarrow>
           x = fmul (fdiv (real_of_int (current (metric_of c p) - p)) (real_of_int p)) 100 \<and>
           \<bar>x - real_of_int (current (metric_of c p) - p) / real_of_int p * 100\<bar> \<le>
             \<bar>real_of_int (current (metric_of c p) - p) / real_of_int p * 100\<bar> / 2 ^ 51)"
    using percent_error[of "real_of_int (c - p)" "real_of_int p"] assms
    by (auto simp: metric_of_def)
qed

lemma windowed_fractions:
  "fmul (fdiv 11 5) 100 = 7740561859543041 / 35184372088832"
  "fmul (fdiv 11 20) 100 = 7740561859543041 / 140737488355328"
  "fmul (fdiv 7 20) 100 = 35"
  "fmul (fdiv 16 24) 100 = 2345624805922133 / 35184372088832"
  by (simp_all add: fmul_def fdiv_def fround_def exponent_def pow2_def roundTiesToEven_def
        compute_bitlen)

lemma windowed_safe: "safe_counts windowed_supabase (count_queries day_lib now0 ''7d'')"
  by (simp add: safe_counts_def count_queries_def window_def windowed_iso windowed_counts Let_def)

lemma windowed_metric_counts:
  "total_count windowed_supabase ''profiles'' = 40"
  "total_count windowed_supabase ''consent'' = 20"
  "flag_count windowed_supabase ''marketing'' = 11"
  "flag_count windowed_supabase ''improvement'' = 7"
  "period_count day_lib windowed_supabase now0 ''7d'' ''profiles'' = 16"
  "previous_count day_lib windowed_supabase now0 ''7d'' ''profiles'' = 5"
  "period_count day_lib windowed_supabase now0 ''7d'' ''analyses'' = 0"
  "previous_count day_lib windowed_supabase now0 ''7d'' ''analyses'' = 0"
  "period_count day_lib windowed_supabase now0 ''7d'' ''waitlist'' = 0"
  "previous_count day_lib windowed_supabase now0 ''7d'' ''waitlist'' = 0"
  by (simp_all add: total_count_def flag_count_def period_count_def previous_count_def
        window_def windowed_iso windowed_counts)

text \<open>
  Claim C3, as amended. The four metrics are derived from the counts of the backend: the
  total users from the total and max(total - period signups, 0), the three others from
  the count of the current window and the count of the comparison window. For each of
  them the previous value is a count, the delta is the current value minus it, and the
  delta percentage is null exactly when the previous value is 0; otherwise it is the
  double \<open>(delta / previous) * 100\<close>, the quotient rounded to the nearest double and the
  product rounded again, which is within 2^-51 of the exact percentage, relatively.
\<close>
theorem delta_percentage:
  assumes "safe_counts supabase (count_queries l now period)"
  shows "totalUsers (fst (dashboardMetrics_of l supabase now period)) =
           metric_of (total_count supabase ''profiles'')
             (max (total_count supabase ''profiles'' -
                   period_count l supabase now period ''profiles'') 0) \<and>
         weeklySignups (fst (dashboardMetrics_of l supabase now period)) =
           metric_of (period_count l supabase now period ''profiles'')
             (previous_count l supabase now period ''profiles'') \<and>
         analyses (fst (dashboardMetrics_of l supabase now period)) =
           metric_of (period_count l supabase now period ''analyses'')
             (previous_count l supabase now period ''analyses'') \<and>
         waitlist (fst (dashboardMetrics_of l supabase now period)) =
           metric_of (period_count l supabase now period ''waitlist'')
             (previous_count l supabase now period ''waitlist'') \<and>
         (\<forall>m \<in> {totalUsers (fst (dashboardMetrics_of l supabase now period)),
                 weeklySignups (fst (dashboardMetrics_of l supabase now period)),
                 analyses (fst (dashboardMetrics_of l supabase now period)),
                 waitlist (fst (dashboardMetrics_of l supabase now period))}.
            \<exists>p. previous m = Some p \<and> 0 \<le> p \<and> delta m = current m - p \<and>
                (deltaPercentage m = None \<longleftrightarrow> p = 0) \<and>
                (\<forall>x. deltaPercentage m = Some x \<longrightarrow>
                   x = fmul (fdiv (real_of_int (current m - p)) (real_of_int p)) 100 \<and>
                   \<bar>x - real_of_int (current m - p) / real_of_int p * 100\<bar> \<le>
                     \<bar>real_of_int (current m - p) / real_of_int p * 100\<bar> / 2 ^ 51))"
proof -
  define Q where "Q = (\<lambda>m :: MetricData. \<exists>p. previous m = Some p \<and> 0 \<le> p \<and> delta m = current m - p \<and>
                (deltaPercentage m = None \<longleftrightarrow> p = 0) \<and>
                (\<forall>x. deltaPercentage m = Some x \<longrightarrow>
                   x = fmul (fdiv (real_of_int (current m - p)) (real_of_int p)) 100 \<and>
                   \<bar>x - real_of_int (current m - p) / real_of_int p * 100\<bar> \<le>
                     \<bar>real_of_int (current m - p) / real_of_int p * 100\<bar> / 2 ^ 51))"
  have q: "Q (metric_of c p)" if "0 \<le> p" for c p
    unfolding Q_def by (rule metric_of_percentage[OF that])
  have n: "0 \<le> previous_count l supabase now period table" for table
    by (simp add: previous_count_def)
  have "\<forall>m \<in> {metric_of (total_count supabase ''profiles'')
                   (max (total_count supabase ''profiles'' -
                         period_count l supabase now period ''profiles'') 0),
                 metric_of (period_count l supabase now period ''profiles'')
                   (previous_count l supabase now period ''profiles''),
                 metric_of (period_count l supabase now period ''analyses'')
                   (previous_count l supabase now period ''analyses''),
                 metric_of (period_count l supabase now period ''waitlist'')
                   (previous_count l supabase now period ''waitlist'')}. Q m"
    by (intro ballI, elim insertE emptyE) (simp_all only: q n max.cobounded2)
  then show ?thesis
    unfolding metrics_counts Q_def by (intro conjI refl)
qed

theorem delta_percentage_witness:
  "safe_counts windowed_supabase (count_queries day_lib now0 ''7d'') \<and>
   totalUsers (fst (dashboardMetrics_of day_lib windowed_supabase now0 ''7d'')) =
     \<lparr>current = 40, previous = Some 24, delta = 16,
      deltaPercentage = Some (2345624805922133 / 35184372088832)\<rparr> \<and>
   weeklySignups (fst (dashboardMetrics_of day_lib windowed_supabase now0 ''7d'')) =
     \<lparr>current = 16, previous = Some 5, delta = 11,
      deltaPercentage = Some (7740561859543041 / 35184372088832)\<rparr> \<and>
   analyses (fst (dashboardMetrics_of day_lib windowed_supabase now0 ''7d'')) =
     \<lparr>current = 0, previous = Some 0, delta = 0, deltaPercentage = None\<rparr>"
  using delta_percentage[OF windowed_safe]
  by (simp add: windowed_safe windowed_metric_counts metric_of_def windowed_fractions)

text \<open>
  Claim C3 as stated fails: with 16 signups in the current window and 5 in the comparison
  window the delta percentage is the double 220.00000000000003 (7740561859543041 * 2^-45),
  not (16 - 5) / 5 * 100 = 220.
\<close>
theorem delta_percentage_counterexample:
  "current (weeklySignups (fst (dashboardMetrics_of day_lib windowed_supabase now0 ''7d''))) = 16 \<and>
   previous (weeklySignups (fst (dashboardMetrics_of day_lib windowed_supabase now0 ''7d''))) =
     Some 5 \<and>
   deltaPercentage (weeklySignups (fst (dashboardMetrics_of day_lib windowed_supabase now0 ''7d''))) =
     Some (7740561859543041 / 35184372088832) \<and>
   deltaPercentage (weeklySignups (fst (dashboardMetrics_of day_lib windowed_supabase now0 ''7d''))) \<noteq>
     Some ((16 - 5) / 5 * 100)"
  by (simp add: metrics_counts windowed_metric_counts metric_of_def windowed_fractions)

text \<open>
  Claim C8, as amended. With \<open>n\<close> the count of the consent records and \<open>k\<close> the count of
  those with a flag set, the rate of the flag is 0 when \<open>n\<close> is 0 and otherwise the double
  \<open>(k / n) * 100\<close>, the quotient rounded to the nearest double and the product rounded
  again, which is within 2^-51 of 100 * k / n, relatively.
\<close>
theorem opt_in_rates:
  assumes "safe_counts supabase (count_queries l now period)"
  shows "marketing (consent (fst (dashboardMetrics_of l supabase now period))) =
           \<lparr>optedIn = flag_count supabase ''marketing'', total = total_count supabase ''consent'',
            rate = (if 0 < total_count supabase ''consent''
                    then fmul (fdiv (real_of_int (flag_count supabase ''marketing''))
                                 (real_of_int (total_count supabase ''consent''))) 100
                    else 0)\<rparr> \<and>
         improvement (consent (fst (dashboardMetrics_of l supabase now period))) =
           \<lparr>optedIn = flag_count supabase ''improvement'', total = total_count supabase ''consent'',
            rate = (if 0 < total_count supabase ''consent''
                    then fmul (fdiv (real_of_int (flag_count supabase ''improvement''))
                                 (real_of_int (total_count supabase ''consent''))) 100
                    else 0)\<rparr> \<and>
         (total_count supabase ''consent'' = 0 \<longrightarrow>
            rate (marketing (consent (fst (dashboardMetrics_of l supabase now period)))) = 0 \<and>
            rate (improvement (consent (fst (dashboardMetrics_of l supabase now period)))) = 0) \<and>
         (0 < total_count supabase ''consent'' \<longrightarrow>
            \<bar>rate (marketing (consent (fst (dashboardMetrics_of l supabase now period)))) -
               100 * real_of_int (flag_count supabase ''marketing'') /
                 real_of_int (total_count supabase ''consent'')\<bar> \<le>
              100 * real_of_int (flag_count supabase ''marketing'') /
                real_of_int (total_count supabase ''consent'') / 2 ^ 51 \<and>
            \<bar>rate (improvement (consent (fst (dashboardMetrics_of l supabase now period)))) -
               100 * real_of_int (flag_count supabase ''improvement'') /
                 real_of_int (total_count supabase ''consent'')\<bar> \<le>
              100 * real_of_int (flag_count supabase ''improvement'') /
                real_of_int (total_count supabase ''consent'') / 2 ^ 51)"
proof -
  have e: "\<bar>fmul (fdiv (real_of_int k) (real_of_int n)) 100 - 100 * real_of_int k / real_of_int n\<bar> \<le>
           100 * real_of_int k / real_of_int n / 2 ^ 51" if "0 \<le> k" "0 < n" for k n :: int
  proof -
    have "\<bar>real_of_int k / real_of_int n * 100\<bar> = real_of_int k / real_of_int n * 100"
      using that by simp
    with percent_error[of "real_of_int k" "real_of_int n"] show ?thesis
      by (simp add: mult.commute)
  qed
  note c = consent_counts[of l supabase now period]
  have k: "0 \<le> flag_count supabase flag" for flag
    by (simp add: flag_count_def)
  have r: "rate (marketing (consent (fst (dashboardMetrics_of l supabase now period)))) =
             (if 0 < total_count supabase ''consent''
              then fmul (fdiv (real_of_int (flag_count supabase ''marketing''))
                           (real_of_int (total_count supabase ''consent''))) 100
              else 0)"
    "rate (improvement (consent (fst (dashboardMetrics_of l supabase now period)))) =
             (if 0 < total_count supabase ''consent''
              then fmul (fdiv (real_of_int (flag_count supabase ''improvement''))
                           (real_of_int (total_count supabase ''consent''))) 100
              else 0)"
    unfolding c by simp_all
  have z: "total_count supabase ''consent'' = 0 \<longrightarrow>
            rate (marketing (consent (fst (dashboardMetrics_of l supabase now period)))) = 0 \<and>
            rate (improvement (consent (fst (dashboardMetrics_of l supabase now period)))) = 0"
    unfolding r by simp
  have b: "0 < total_count supabase ''consent'' \<longrightarrow>
            \<bar>rate (marketing (consent (fst (dashboardMetrics_of l supabase now period)))) -
               100 * real_of_int (flag_count supabase ''marketing'') /
                 real_of_int (total_count supabase ''consent'')\<bar> \<le>
              100 * real_of_int (flag_count supabase ''marketing'') /
                real_of_int (total_count supabase ''consent'') / 2 ^ 51 \<and>
            \<bar>rate (improvement (consent (fst (dashboardMetrics_of l supabase now period)))) -
               100 * real_of_int (flag_count supabase ''improvement'') /
                 real_of_int (total_count supabase ''consent'')\<bar> \<le>
              100 * real_of_int (flag_count supabase ''improvement'') /
                real_of_int (total_count supabase ''consent'') / 2 ^ 51"
  proof (intro impI conjI)
    assume n: "0 < total_count supabase ''consent''"
    show "\<bar>rate (marketing (consent (fst (dashboardMetrics_of l supabase now period)))) -
               100 * real_of_int (flag_count supabase ''marketing'') /
                 real_of_int (total_count supabase ''consent'')\<bar> \<le>
              100 * real_of_int (flag_count supabase ''marketing'') /
                real_of_int (total_count supabase ''consent'') / 2 ^ 51"
      unfolding r if_P[OF n] by (rule e[OF k n])
    show "\<bar>rate (improvement (consent (fst (dashboardMetrics_of l supabase now period)))) -
               100 * real_of_int (flag_count supabase ''improvement'') /
                 real_of_int (total_count supabase ''consent'')\<bar> \<le>
              100 * real_of_int (flag_count supabase ''improvement'') /
                real_of_int (total_count supabase ''consent'') / 2 ^ 51"
      unfolding r if_P[OF n] by (rule e[OF k n])
  qed
  show ?thesis
    by (intro conjI c z b)
qed

theorem opt_in_rates_witness:
  "safe_counts windowed_supabase (count_queries day_lib now0 ''7d'') \<and>
   marketing (consent (fst (dashboardMetrics_of day_lib windowed_supabase now0 ''7d''))) =
     \<lparr>optedIn = 11, total = 20, rate = 7740561859543041 / 140737488355328\<rparr> \<and>
   improvement (consent (fst (dashboardMetrics_of day_lib windowed_supabase now0 ''7d''))) =
     \<lparr>optedIn = 7, total = 20, rate = 35\<rparr>"
  using opt_in_rates[OF windowed_safe]
  by (simp add: windowed_safe windowed_metric_counts windowed_fractions)

text \<open>
  Claim C8 as stated fails: with 20 consent records, 11 of them with the marketing flag,
  the rate is the double 55.00000000000001 (7740561859543041 * 2^-47), not
  100 * 11 / 20 = 55.
\<close>
theorem opt_in_rates_counterexample:
  "optedIn (marketing (consent (fst (dashboardMetrics_of day_lib windowed_supabase now0 ''7d'')))) =
     11 \<and>
   total (marketing (consent (fst (dashboardMetrics_of day_lib windowed_supabase now0 ''7d'')))) =
     20 \<and>
   rate (marketing (consent (fst (dashboardMetrics_of day_lib windowed_supabase now0 ''7d'')))) =
     7740561859543041 / 140737488355328 \<and>
   rate (marketing (consent (fst (dashboardMetrics_of day_lib windowed_supabase now0 ''7d'')))) \<noteq>
     100 * 11 / 20"
  by (simp add: consent_counts windowed_metric_counts windowed_fractions)




lemma count_errors_mem:
  "CountError label e \<in> set (count_errors supabase queries) \<longleftrightarrow>
     (\<exists>q. (label, q) \<in> set queries \<and> run supabase q = Failure e)"
  by (induction queries) (auto simp: count_errors_def split: query_response.splits)

lemma used_counts:
  "current (totalUsers (fst (dashboardMetrics_of l supabase now period))) =
     total_count supabase ''profiles''"
  "current (weeklySignups (fst (dashboardMetrics_of l supabase now period))) =
     period_count l supabase now period ''profiles''"
  "previous (weeklySignups (fst (dashboardMetrics_of l supabase now period))) =
     Some (previous_count l supabase now period ''profiles'')"
  "current (analyses (fst (dashboardMetrics_of l supabase now period))) =
     period_count l supabase now period ''analyses''"
  "previous (analyses (fst (dashboardMetrics_of l supabase now period))) =
     Some (previous_count l supabase now period ''analyses'')"
  "total (marketing (consent (fst (dashboardMetrics_of l supabase now period)))) =
     total_count supabase ''consent''"
  "total (improvement (consent (fst (dashboardMetrics_of l supabase now period)))) =
     total_count supabase ''consent''"
  "optedIn (marketing (consent (fst (dashboardMetrics_of l supabase now period)))) =
     flag_count supabase ''marketing''"
  "optedIn (improvement (consent (fst (dashboardMetrics_of l supabase now period)))) =
     flag_count supabase ''improvement''"
  "current (waitlist (fst (dashboardMetrics_of l supabase now period))) =
     period_count l supabase now period ''waitlist''"
  "previous (waitlist (fst (dashboardMetrics_of l supabase now period))) =
     Some (previous_count l supabase now period ''waitlist'')"
  by (simp_all add: metrics_counts consent_counts metric_of_def)

text \<open>
  Claim C4. \<open>getCountOrZero\<close> gives 0 for a response with an error, which it logs and
  nothing else, and for a response whose count is null. Every count that the metrics
  show is the count of the response of its query, 0 for a failure and for a null count,
  and the metrics are those of a backend in which every such response is a count of 0.
  The page returns its props whatever the responses are, and what it logs is the error
  of every counting query that failed, under the label of the query and in the order of
  the queries, followed by the error of the query of the messages if it failed.
\<close>
theorem count_errors_degrade_to_zero:
  fixes supabase :: "'e supabaseAdmin"
  shows "(\<forall>e label. getCountOrZero (Failure e :: ('e, 'r) query_response) label =
                      (0, [CountError label e])) \<and>
         (\<forall>d label. getCountOrZero (Success None d :: ('e, 'r) query_response) label = (0, [])) \<and>
         fst (dashboardMetrics_of l (supabase\<lparr>run := \<lambda>q. degrade (run supabase q)\<rparr>) now period) =
           fst (dashboardMetrics_of l supabase now period) \<and>
         (\<exists>p lg. getServerSideProps l (Admin session :: ('d, 's) admin_result) supabase now nowForMessages period_param =
                    (Props p, lg) \<and>
                  dashboardMetrics p =
                    fst (dashboardMetrics_of l (supabase\<lparr>run := \<lambda>q. degrade (run supabase q)\<rparr>)
                           now (period_of period_param)) \<and>
                  dashboardMetrics p =
                    fst (dashboardMetrics_of l supabase now (period_of period_param)) \<and>
                  lg = count_errors supabase (count_queries l now (period_of period_param)) @
                       (case run_messages supabase messages_query of
                          Failure e \<Rightarrow> [MessagesError e]
                        | Success c d \<Rightarrow> []) \<and>
                  (\<forall>label e. CountError label e \<in> set lg \<longleftrightarrow>
                     (\<exists>q. (label, q) \<in> set (count_queries l now (period_of period_param)) \<and>
                          run supabase q = Failure e))) \<and>
         (\<forall>e. count_of (Failure e :: ('e, created_row) query_response) = 0) \<and>
         (\<forall>d. count_of (Success None d :: ('e, created_row) query_response) = 0) \<and>
         (\<forall>n d. count_of (Success (Some n) d :: ('e, created_row) query_response) = int n) \<and>
         current (totalUsers (fst (dashboardMetrics_of l supabase now period))) =
           count_of (run supabase (count_query ''profiles'' [])) \<and>
         current (weeklySignups (fst (dashboardMetrics_of l supabase now period))) =
           count_of (run supabase (count_query ''profiles''
             (window l (startOfPeriod now period) (endOfPeriod now period)))) \<and>
         previous (weeklySignups (fst (dashboardMetrics_of l supabase now period))) =
           Some (count_of (run supabase (count_query ''profiles''
             (window l (startOfPreviousPeriod now period) (endOfPreviousPeriod now period))))) \<and>
         current (analyses (fst (dashboardMetrics_of l supabase now period))) =
           count_of (run supabase (count_query ''analyses''
             (window l (startOfPeriod now period) (endOfPeriod now period)))) \<and>
         previous (analyses (fst (dashboardMetrics_of l supabase now period))) =
           Some (count_of (run supabase (count_query ''analyses''
             (window l (startOfPreviousPeriod now period) (endOfPreviousPeriod now period))))) \<and>
         total (marketing (consent (fst (dashboardMetrics_of l supabase now period)))) =
           count_of (run supabase (count_query ''consent'' [])) \<and>
         total (improvement (consent (fst (dashboardMetrics_of l supabase now period)))) =
           count_of (run supabase (count_query ''consent'' [])) \<and>
         optedIn (marketing (consent (fst (dashboardMetrics_of l supabase now period)))) =
           count_of (run supabase (count_query ''consent'' [Eq ''marketing'' True])) \<and>
         optedIn (improvement (consent (fst (dashboardMetrics_of l supabase now period)))) =
           count_of (run supabase (count_query ''consent'' [Eq ''improvement'' True])) \<and>
         current (waitlist (fst (dashboardMetrics_of l supabase now period))) =
           count_of (run supabase (count_query ''waitlist''
             (window l (startOfPeriod now period) (endOfPeriod now period)))) \<and>
         previous (waitlist (fst (dashboardMetrics_of l supabase now period))) =
           Some (count_of (run supabase (count_query ''waitlist''
             (window l (startOfPreviousPeriod now period) (endOfPreviousPeriod now period)))))"
proof -
  let ?lg = "count_errors supabase (count_queries l now (period_of period_param)) @
             (case run_messages supabase messages_query of
                Failure e \<Rightarrow> [MessagesError e]
              | Success c d \<Rightarrow> [])"
  have m: "(CountError label e \<in> set ?lg) \<longleftrightarrow>
             (\<exists>q. (label, q) \<in> set (count_queries l now (period_of period_param)) \<and>
                  run supabase q = Failure e)" for label e
    by (cases "run_messages supabase messages_query") (simp_all add: count_errors_mem)
  have "\<exists>p. getServerSideProps l (Admin session :: ('d, 's) admin_result) supabase now nowForMessages period_param =
               (Props p, ?lg) \<and>
             dashboardMetrics p = fst (dashboardMetrics_of l supabase now (period_of period_param))"
    unfolding getServerSideProps_Admin
    by (cases "run_messages supabase messages_query") (simp_all add: log_eq)
  then obtain p where
    g: "getServerSideProps l (Admin session :: ('d, 's) admin_result) supabase now nowForMessages period_param =
          (Props p, ?lg)"
    and d: "dashboardMetrics p = fst (dashboardMetrics_of l supabase now (period_of period_param))"
    by blast
  have page: "\<exists>p lg. getServerSideProps l (Admin session :: ('d, 's) admin_result) supabase now nowForMessages period_param =
                    (Props p, lg) \<and>
                  dashboardMetrics p =
                    fst (dashboardMetrics_of l (supabase\<lparr>run := \<lambda>q. degrade (run supabase q)\<rparr>)
                           now (period_of period_param)) \<and>
                  dashboardMetrics p =
                    fst (dashboardMetrics_of l supabase now (period_of period_param)) \<and>
                  lg = ?lg \<and>
                  (\<forall>label e. CountError label e \<in> set lg \<longleftrightarrow>
                     (\<exists>q. (label, q) \<in> set (count_queries l now (period_of period_param)) \<and>
                          run supabase q = Failure e))"
  proof (intro exI conjI allI)
    show "getServerSideProps l (Admin session :: ('d, 's) admin_result) supabase now nowForMessages period_param =
            (Props p, ?lg)"
      by (rule g)
    show "dashboardMetrics p =
            fst (dashboardMetrics_of l (supabase\<lparr>run := \<lambda>q. degrade (run supabase q)\<rparr>)
                   now (period_of period_param))"
      unfolding dashboardMetrics_degrade by (rule d)
    show "dashboardMetrics p = fst (dashboardMetrics_of l supabase now (period_of period_param))"
      by (rule d)
    show "?lg = ?lg" by (rule refl)
    show "(CountError label e \<in> set ?lg) \<longleftrightarrow>
            (\<exists>q. (label, q) \<in> set (count_queries l now (period_of period_param)) \<and>
                 run supabase q = Failure e)" for label e
      by (rule m)
  qed
  have c: "\<forall>e. count_of (Failure e :: ('e, created_row) query_response) = 0"
    "\<forall>d. count_of (Success None d :: ('e, created_row) query_response) = 0"
    "\<forall>n d. count_of (Success (Some n) d :: ('e, created_row) query_response) = int n"
    by (simp_all add: count_of_def)
  have z: "\<forall>e label. getCountOrZero (Failure e :: ('e, 'r) query_response) label =
                      (0, [CountError label e])"
    "\<forall>d label. getCountOrZero (Success None d :: ('e, 'r) query_response) label = (0, [])"
    by (simp_all add: getCountOrZero_def)
  note u = used_counts[of l supabase now period,
      unfolded total_count_def period_count_def previous_count_def flag_count_def]
  show ?thesis
    by (intro conjI z c page u dashboardMetrics_degrade)
qed

lemma windowed_log:
  "count_errors windowed_supabase (count_queries day_lib now0 ''7d'') =
     [CountError ''analyses (periode)'' ''timeout'',
      CountError ''analyses (periode precedente)'' ''timeout'',
      CountError ''waitlist (periode)'' ''timeout'',
      CountError ''waitlist (periode precedente)'' ''timeout'']"
  by (simp add: count_errors_def count_queries_def Let_def windowed_supabase_def count_query_def)

theorem count_errors_degrade_to_zero_witness:
  "getCountOrZero (Failure ''timeout'' :: (string, created_row) query_response) ''analyses (periode)'' =
     (0, [CountError ''analyses (periode)'' ''timeout'']) \<and>
   current (analyses (fst (dashboardMetrics_of day_lib windowed_supabase now0 ''7d''))) = 0 \<and>
   previous (analyses (fst (dashboardMetrics_of day_lib windowed_supabase now0 ''7d''))) = Some 0 \<and>
   (\<exists>p. getServerSideProps day_lib (Admin () :: (unit, unit) admin_result) windowed_supabase
          now0 now0 Absent =
          (Props p,
           [CountError ''analyses (periode)'' ''timeout'',
            CountError ''analyses (periode precedente)'' ''timeout'',
            CountError ''waitlist (periode)'' ''timeout'',
            CountError ''waitlist (periode precedente)'' ''timeout'',
            MessagesError ''timeout'']))"
proof -
  have a: "period_of Absent = ''7d''" by (simp add: period_of_def)
  have b: "run_messages windowed_supabase messages_query = Failure ''timeout''"
    by (simp add: windowed_supabase_def)
  have r: "count_of (run windowed_supabase (count_query ''analyses'' f)) = 0" for f
    by (simp add: windowed_supabase_def count_query_def count_of_def)
  note t = count_errors_degrade_to_zero[of day_lib windowed_supabase now0 "''7d''"
      "()" now0 Absent, where ?'r = created_row and ?'d = unit]
  note g = t[THEN conjunct1, rule_format, of "''timeout''" "''analyses (periode)''"]
  note pg = t[THEN conjunct2, THEN conjunct2, THEN conjunct2, THEN conjunct1]
  have c: "current (analyses (fst (dashboardMetrics_of day_lib windowed_supabase now0 ''7d''))) =
             count_of (run windowed_supabase (count_query ''analyses''
               (window day_lib (startOfPeriod now0 ''7d'') (endOfPeriod now0 ''7d''))))"
    using t by (elim conjE) assumption
  have p: "previous (analyses (fst (dashboardMetrics_of day_lib windowed_supabase now0 ''7d''))) =
             Some (count_of (run windowed_supabase (count_query ''analyses''
               (window day_lib (startOfPreviousPeriod now0 ''7d'')
                  (endOfPreviousPeriod now0 ''7d'')))))"
    using t by (elim conjE) assumption
  from pg obtain p lg where
    1: "getServerSideProps day_lib (Admin () :: (unit, unit) admin_result) windowed_supabase
          now0 now0 Absent = (Props p, lg)"
    and 2: "lg = count_errors windowed_supabase (count_queries day_lib now0 (period_of Absent)) @
               (case run_messages windowed_supabase messages_query of
                  Failure e \<Rightarrow> [MessagesError e]
                | Success c d \<Rightarrow> [])"
    by (elim exE conjE)
  have "\<exists>p. getServerSideProps day_lib (Admin () :: (unit, unit) admin_result) windowed_supabase
          now0 now0 Absent =
          (Props p,
           [CountError ''analyses (periode)'' ''timeout'',
            CountError ''analyses (periode precedente)'' ''timeout'',
            CountError ''waitlist (periode)'' ''timeout'',
            CountError ''waitlist (periode precedente)'' ''timeout'',
            MessagesError ''timeout''])"
    unfolding 1 2 by (simp add: a b windowed_log)
  with g c p show ?thesis by (simp add: r)
qed

end
